theory Spec2Isabelle
  imports Main "HOL-Library.Multiset"
begin

section \<open>Faults\<close>

text \<open>
  The C++ sources can abort in three ways: a failed \<^verbatim>\<open>assert\<close>, a member call
  through a null pointer, and the fatal error of the LLVM verifier pass.  Each is a value of \<open>fault\<close>; a routine that can abort
  returns \<open>fault + 'a\<close> with \<open>Inl\<close> for the abort.
\<close>

datatype fault = AssertionFailure | NullPointerDereference | VerifierFatalError

section \<open>MLIR types, attributes and values\<close>

text \<open>
  The part of MLIR that the sources use.  A \<^verbatim>\<open>Type\<close> is an integer type of a
  width (\<^verbatim>\<open>getI1Type()\<close> is the width 1), a float type of a width, the index
  type, Triton's pointer type, a ranked tensor type (shape and element type),
  or any other type, named.  The ranked tensor is the only \<^verbatim>\<open>TensorType\<close> of
  the model.
\<close>

datatype Type =
    IntegerType nat
  | FloatType nat
  | IndexType
  | PointerType Type
  | RankedTensorType "int list" Type
  | OtherType string

text \<open>
  An \<^verbatim>\<open>Attribute\<close>: an integer of a type (a \<^verbatim>\<open>bool\<close> is the \<open>i1\<close> integer 1 or 0),
  a float of a type (its bit pattern; \<open>+0.0\<close> is 0), or the elements of a
  shaped type.  \<^verbatim>\<open>DenseElementsAttr::get\<close> with a single element makes a splat:
  every position of the shape holds that element.
\<close>

datatype Attribute =
    IntegerAttr Type int
  | FloatAttr Type nat
  | DenseElementsAttr Type "Attribute list"

text \<open>
  An \<^verbatim>\<open>mlir::Value\<close> is a nullable handle on a definition; the definition has
  a type and a location.  The null handle is \<open>None\<close> of \<open>Value option\<close>.
\<close>

record Value =
  val_id :: nat
  getType :: Type
  getLoc :: nat

section \<open>GCNAsmFormat.h: the instruction model\<close>

text \<open>
  \<^verbatim>\<open>struct GCNInstrCommon { GCNBuilder *builder; SmallVector<std::string, 4> instrParts; }\<close>.
  The back pointer is the address of the owning builder.
\<close>

record GCNInstrCommon =
  builder :: nat
  instrParts :: "string list"

text \<open>
  \<^verbatim>\<open>ConcreteT &o(const std::string &suffix, bool predicate = true)\<close>: pushes the
  suffix when the predicate holds and returns \<^verbatim>\<open>*this\<close>, here the updated
  instruction.
\<close>

definition o_suffix :: "string \<Rightarrow> bool \<Rightarrow> GCNInstrCommon \<Rightarrow> GCNInstrCommon" where
  "o_suffix suffix predicate i =
     (if predicate then i\<lparr>instrParts := instrParts i @ [suffix]\<rparr> else i)"

text \<open>
  \<^verbatim>\<open>explicit GCNInstrBase(GCNBuilder *builder, const std::string &name)
      : GCNInstrCommon(builder) { o(name); }\<close>
\<close>

definition GCNInstrBase :: "nat \<Rightarrow> string \<Rightarrow> GCNInstrCommon" where
  "GCNInstrBase b name = o_suffix name True \<lparr>builder = b, instrParts = []\<rparr>"

text \<open>\<^verbatim>\<open>enum VectorWidth { Byte = 8, Short = 16, Dword = 32, Qword = 64 };\<close>\<close>

definition Byte :: int where "Byte = 8"
definition Short :: int where "Short = 16"
definition Dword :: int where "Dword = 32"
definition Qword :: int where "Qword = 64"

text \<open>\<^verbatim>\<open>assert(c)\<close>: nothing when \<open>c\<close> holds, an abort otherwise.\<close>

definition cpp_assert :: "bool \<Rightarrow> 'a \<Rightarrow> fault + 'a" where
  "cpp_assert c k = (if c then Inr k else Inl AssertionFailure)"

text \<open>
  \<^verbatim>\<open>GCNInstr &float_op_type(int width)\<close>: a switch over the four enumerators with an
  empty default; the \<^verbatim>\<open>Byte\<close> case is \<^verbatim>\<open>assert(Byte != width); break;\<close>.
\<close>

definition float_op_type :: "int \<Rightarrow> GCNInstrCommon \<Rightarrow> fault + GCNInstrCommon" where
  "float_op_type width i =
     (if width = Byte then cpp_assert (Byte \<noteq> width) i
      else if width = Short then Inr (o_suffix ''f16'' True i)
      else if width = Dword then Inr (o_suffix ''f32'' True i)
      else if width = Qword then Inr (o_suffix ''f64'' True i)
      else Inr i)"

text \<open>\<^verbatim>\<open>GCNMemInstr &load_type(int width)\<close> and \<^verbatim>\<open>store_type\<close>: no case can abort.\<close>

definition load_type :: "int \<Rightarrow> GCNInstrCommon \<Rightarrow> GCNInstrCommon" where
  "load_type width i =
     (if width = Byte then o_suffix ''ubyte'' True i
      else if width = Short then o_suffix ''ushort'' True i
      else if width = Dword then o_suffix ''dword'' True i
      else if width = Qword then o_suffix ''dwordx2'' True i
      else i)"

definition store_type :: "int \<Rightarrow> GCNInstrCommon \<Rightarrow> GCNInstrCommon" where
  "store_type width i =
     (if width = Byte then o_suffix ''byte'' True i
      else if width = Short then o_suffix ''short'' True i
      else if width = Dword then o_suffix ''dword'' True i
      else if width = Qword then o_suffix ''dwordx2'' True i
      else i)"

text \<open>
  A chain \<^verbatim>\<open>i.o(s1, p1).o(s2, p2)...\<close> applies the calls from left to right.
\<close>

fun o_chain :: "(string \<times> bool) list \<Rightarrow> GCNInstrCommon \<Rightarrow> GCNInstrCommon" where
  "o_chain [] i = i"
| "o_chain ((s, p) # rest) i = o_chain rest (o_suffix s p i)"

section \<open>GCNAsmFormat.h: operands, modifiers and the builder's arenas\<close>

text \<open>
  \<^verbatim>\<open>struct Operand { std::string constraint; Value value; int idx{-1};
    SmallVector<Operand *> list; std::function<std::string(int idx)> repr; }\<close>.
  The null \<^verbatim>\<open>mlir::Value\<close> is \<open>None\<close>.  An
  \<^verbatim>\<open>Operand *\<close> is the position of the operand in \<^verbatim>\<open>argArchive\<close> (the arena
  holds \<^verbatim>\<open>unique_ptr\<close>s, so the pointers stay valid while it grows).  A null
  \<^verbatim>\<open>std::function\<close> is \<open>None\<close>.  Both structs have members \<^verbatim>\<open>value\<close> and
  \<^verbatim>\<open>list\<close>; the fields carry the struct's prefix.
\<close>

record Operand =
  constraint :: string
  opr_value :: "Value option"
  idx :: int
  opr_list :: "nat list"
  repr :: "(int \<Rightarrow> string) option"

text \<open>\<^verbatim>\<open>Operand() = default;\<close> and \<^verbatim>\<open>Operand(Value value, StringRef constraint)\<close>.\<close>

definition Operand_default :: "Operand" where
  "Operand_default =
     \<lparr>constraint = [], opr_value = None, idx = - 1, opr_list = [], repr = None\<rparr>"

definition Operand_ctor :: "Value option \<Rightarrow> string \<Rightarrow> Operand" where
  "Operand_ctor v c =
     \<lparr>constraint = c, opr_value = v, idx = - 1, opr_list = [], repr = None\<rparr>"

text \<open>\<^verbatim>\<open>bool isList() const { return !value && constraint.empty(); }\<close>\<close>

definition isList :: "Operand \<Rightarrow> bool" where
  "isList x = (opr_value x = None \<and> constraint x = [])"

text \<open>\<^verbatim>\<open>Operand *listAppend(Operand *arg) { list.push_back(arg); return this; }\<close>\<close>

definition listAppend :: "nat \<Rightarrow> Operand \<Rightarrow> Operand" where
  "listAppend a x = x\<lparr>opr_list := opr_list x @ [a]\<rparr>"

text \<open>\<^verbatim>\<open>Operand *listGet(size_t nth) const { assert(nth < list.size()); return list[nth]; }\<close>\<close>

definition listGet :: "nat \<Rightarrow> Operand \<Rightarrow> fault + nat" where
  "listGet n x = cpp_assert (n < length (opr_list x)) (opr_list x ! n)"

text \<open>
  \<^verbatim>\<open>struct Modifier { Value value; std::string modifier; std::string arg;
    SmallVector<Modifier *> list; }\<close> with \<^verbatim>\<open>to_str\<close>.
\<close>

record Modifier =
  mod_value :: "Value option"
  modifier :: string
  arg :: string
  mod_list :: "nat list"

definition to_str :: "Modifier \<Rightarrow> string" where
  "to_str m = (if arg m \<noteq> [] then modifier m @ '':'' @ arg m else modifier m)"

text \<open>
  \<^verbatim>\<open>struct GCNInstrExecution { SmallVector<Operand *> argsInOrder;
    SmallVector<Modifier *> mods; GCNInstrCommon *instr{}; }\<close>; the constructor
  copies the two ranges.
\<close>

record GCNInstrExecution =
  instr :: nat
  argsInOrder :: "nat list"
  mods :: "nat list"

definition GCNInstrExecution_ctor :: "nat \<Rightarrow> nat list \<Rightarrow> nat list \<Rightarrow> GCNInstrExecution" where
  "GCNInstrExecution_ctor i oprs modifiers =
     \<lparr>instr = i, argsInOrder = oprs, mods = modifiers\<rparr>"

text \<open>
  \<^verbatim>\<open>struct GCNBuilder\<close>: the four arenas and \<^verbatim>\<open>int oprCounter{}\<close>.  Every routine
  that allocates takes the builder and returns the new handle with the
  updated builder.
\<close>

record GCNBuilder =
  argArchive :: "Operand list"
  modArchive :: "Modifier list"
  instrs :: "GCNInstrCommon list"
  executions :: "GCNInstrExecution list"
  oprCounter :: int

definition GCNBuilder_init :: "GCNBuilder" where
  "GCNBuilder_init =
     \<lparr>argArchive = [], modArchive = [], instrs = [], executions = [], oprCounter = 0\<rparr>"

text \<open>A member call through an \<^verbatim>\<open>Operand *\<close>: the operand at that place is replaced.\<close>

definition at_operand :: "nat \<Rightarrow> (Operand \<Rightarrow> Operand) \<Rightarrow> GCNBuilder \<Rightarrow> GCNBuilder" where
  "at_operand h f b = b\<lparr>argArchive := (argArchive b)[h := f (argArchive b ! h)]\<rparr>"

text \<open>
  \<^verbatim>\<open>template <typename INSTR, typename... Args> INSTR *create(Args &&...args)\<close>, for
  the instruction classes of the header, whose constructor takes the name.
\<close>

definition create :: "nat \<Rightarrow> string \<Rightarrow> GCNBuilder \<Rightarrow> nat \<times> GCNBuilder" where
  "create this name b =
     (length (instrs b), b\<lparr>instrs := instrs b @ [GCNInstrBase this name]\<rparr>)"

text \<open>The private \<^verbatim>\<open>Operand *newOperand()\<close>, and \<^verbatim>\<open>newListOperand()\<close> which returns it.\<close>

definition newOperand_private :: "GCNBuilder \<Rightarrow> nat \<times> GCNBuilder" where
  "newOperand_private b =
     (length (argArchive b), b\<lparr>argArchive := argArchive b @ [Operand_default]\<rparr>)"

definition newListOperand :: "GCNBuilder \<Rightarrow> nat \<times> GCNBuilder" where
  "newListOperand b = newOperand_private b"

text \<open>
  Modelled from the spec: the body of \<^verbatim>\<open>newOperand(value, constraint, formatter)\<close>,
  which the header only declares.  The spec: \<^emph>\<open>newOperand(value, constraint,
  renderer?) creates and owns a bound Operand; every created record is
  appended to the arena's retained sequence\<close>; the position index is
  \<^emph>\<open>assigned at use time\<close>, so creation leaves \<^verbatim>\<open>idx\<close> at its initial \<open>-1\<close>.
\<close>

definition newOperand ::
  "Value option \<Rightarrow> string \<Rightarrow> (int \<Rightarrow> string) option \<Rightarrow> GCNBuilder \<Rightarrow> nat \<times> GCNBuilder" where
  "newOperand v c formatter b =
     (length (argArchive b),
      b\<lparr>argArchive := argArchive b @ [(Operand_ctor v c)\<lparr>repr := formatter\<rparr>]\<rparr>)"

text \<open>
  Modelled from the spec: the body of \<^verbatim>\<open>newOperand(constraint)\<close>, which the header
  only declares.  The spec: \<^emph>\<open>newOperand(constraint) creates a write-only operand
  with no bound value\<close>.
\<close>

definition newOperand_constraint :: "string \<Rightarrow> GCNBuilder \<Rightarrow> nat \<times> GCNBuilder" where
  "newOperand_constraint c b = newOperand None c None b"

text \<open>
  Modelled from the spec: the body of \<^verbatim>\<open>newConstantOperand(const std::string &v)\<close>,
  which the header only declares.  The spec: \<^emph>\<open>newConstantOperand(intOrString)
  creates an Operand with no constraint and a fixed literal rendering\<close>.  The
  routine takes no value, so none is bound.
\<close>

definition newConstantOperand :: "string \<Rightarrow> GCNBuilder \<Rightarrow> nat \<times> GCNBuilder" where
  "newConstantOperand v b =
     (length (argArchive b),
      b\<lparr>argArchive := argArchive b @ [Operand_default\<lparr>repr := Some (\<lambda>_. v)\<rparr>]\<rparr>)"

text \<open>Decimal text of an \<^verbatim>\<open>int\<close>, as \<^verbatim>\<open>std::to_string\<close> gives it.\<close>

definition digit_char :: "nat \<Rightarrow> char" where
  "digit_char d = ''0123456789'' ! d"

function nat_to_string :: "nat \<Rightarrow> string" where
  "nat_to_string n =
     (if n < 10 then [digit_char n] else nat_to_string (n div 10) @ [digit_char (n mod 10)])"
  by pat_completeness auto
termination
  by (relation "measure (\<lambda>n. n)") auto

definition to_string :: "int \<Rightarrow> string" where
  "to_string i = (if i < 0 then CHR ''-'' # nat_to_string (nat (- i)) else nat_to_string (nat i))"

text \<open>
  Modelled from the spec: the body of \<^verbatim>\<open>newConstantOperand(int v)\<close>, which the
  header only declares; the literal is the decimal text of \<open>v\<close>.
\<close>

definition newConstantOperand_int :: "int \<Rightarrow> GCNBuilder \<Rightarrow> nat \<times> GCNBuilder" where
  "newConstantOperand_int v b = newConstantOperand (to_string v) b"

text \<open>
  \<^verbatim>\<open>Operand *newListOperand(ArrayRef<std::pair<mlir::Value, std::string>> items)\<close>:
  the loop body is \<^verbatim>\<open>list->listAppend(newOperand(item.first, item.second))\<close>.
\<close>

fun newListOperand_items_loop ::
  "nat \<Rightarrow> (Value option \<times> string) list \<Rightarrow> GCNBuilder \<Rightarrow> GCNBuilder" where
  "newListOperand_items_loop l [] b = b"
| "newListOperand_items_loop l (item # items) b =
     (case newOperand (fst item) (snd item) None b of
        (a, b1) \<Rightarrow> newListOperand_items_loop l items (at_operand l (listAppend a) b1))"

definition newListOperand_items ::
  "(Value option \<times> string) list \<Rightarrow> GCNBuilder \<Rightarrow> nat \<times> GCNBuilder" where
  "newListOperand_items items b =
     (case newOperand_private b of (l, b1) \<Rightarrow> (l, newListOperand_items_loop l items b1))"

text \<open>
  \<^verbatim>\<open>newListOperand(unsigned count, mlir::Value val, const std::string &constraint)\<close>
  and \<^verbatim>\<open>newListOperand(unsigned count, const std::string &constraint)\<close>: the loop
  \<^verbatim>\<open>for (int i = 0; i < count; ++i)\<close> makes \<^verbatim>\<open>count\<close> rounds of
  \<^verbatim>\<open>list->listAppend(newOperand(...))\<close> (the \<^verbatim>\<open>int\<close> counter is compared as
  unsigned; a count beyond the range of \<^verbatim>\<open>int\<close>, two thousand million operands,
  is left out of the model).
\<close>

fun newListOperand_value_loop ::
  "nat \<Rightarrow> nat \<Rightarrow> Value option \<Rightarrow> string \<Rightarrow> GCNBuilder \<Rightarrow> GCNBuilder" where
  "newListOperand_value_loop l 0 v c b = b"
| "newListOperand_value_loop l (Suc n) v c b =
     (case newOperand v c None b of
        (a, b1) \<Rightarrow> newListOperand_value_loop l n v c (at_operand l (listAppend a) b1))"

definition newListOperand_value ::
  "nat \<Rightarrow> Value option \<Rightarrow> string \<Rightarrow> GCNBuilder \<Rightarrow> nat \<times> GCNBuilder" where
  "newListOperand_value cnt v c b =
     (case newOperand_private b of (l, b1) \<Rightarrow> (l, newListOperand_value_loop l cnt v c b1))"

fun newListOperand_constraint_loop ::
  "nat \<Rightarrow> nat \<Rightarrow> string \<Rightarrow> GCNBuilder \<Rightarrow> GCNBuilder" where
  "newListOperand_constraint_loop l 0 c b = b"
| "newListOperand_constraint_loop l (Suc n) c b =
     (case newOperand_constraint c b of
        (a, b1) \<Rightarrow> newListOperand_constraint_loop l n c (at_operand l (listAppend a) b1))"

definition newListOperand_constraint ::
  "nat \<Rightarrow> string \<Rightarrow> GCNBuilder \<Rightarrow> nat \<times> GCNBuilder" where
  "newListOperand_constraint cnt c b =
     (case newOperand_private b of (l, b1) \<Rightarrow> (l, newListOperand_constraint_loop l cnt c b1))"

section \<open>The format synthesizer\<close>

text \<open>
  \<^verbatim>\<open>GCNInstrCommon::call\<close>, \<^verbatim>\<open>GCNInstrExecution::getArgList\<close>,
  \<^verbatim>\<open>GCNBuilder::getAllArgs\<close>, \<^verbatim>\<open>getAllMLIRArgs\<close>, \<^verbatim>\<open>getConstraints\<close> and the \<^verbatim>\<open>dump\<close>
  routines are declared in the header and defined in a file that is not among
  the sources.  The definitions of this section follow the spec's sections on
  the Instruction Invocation and the Format Synthesizer.
\<close>

text \<open>
  Modelled from the spec: the body of \<^verbatim>\<open>GCNInstrCommon::call\<close>.  \<^emph>\<open>Invoking an
  Instruction creates exactly one Invocation holding that Instruction, a
  frozen copy of the operand references in call order, and a frozen copy of
  the modifier references.\<close>
\<close>

definition call :: "nat \<Rightarrow> nat list \<Rightarrow> nat list \<Rightarrow> GCNBuilder \<Rightarrow> nat \<times> GCNBuilder" where
  "call i oprs modifiers b =
     (length (executions b),
      b\<lparr>executions := executions b @ [GCNInstrExecution_ctor i oprs modifiers]\<rparr>)"

text \<open>
  The header's overloads \<^verbatim>\<open>operator()(Operand* a, Operand* b) { return call({a, b}, {}); }\<close>
  and their like pass the operands in argument order and no modifier.
\<close>

definition call_operands :: "nat \<Rightarrow> nat list \<Rightarrow> GCNBuilder \<Rightarrow> nat \<times> GCNBuilder" where
  "call_operands i oprs b = call i oprs [] b"

text \<open>
  Modelled from the spec: the body of \<^verbatim>\<open>GCNInstrExecution::getArgList\<close>, the
  operands one Invocation refers to.  \<^emph>\<open>List Operands expand to their children
  in child order; the list Operand itself carries no index.\<close>
\<close>

definition getArgList :: "GCNBuilder \<Rightarrow> GCNInstrExecution \<Rightarrow> nat list" where
  "getArgList b e =
     concat (map (\<lambda>a. if isList (argArchive b ! a) then opr_list (argArchive b ! a) else [a])
       (argsInOrder e))"

text \<open>
  Modelled from the spec: \<^emph>\<open>all Operands referenced (directly or via list
  expansion) by all Invocations created in a Store\<close>, in order of reference.
\<close>

definition referenced :: "GCNBuilder \<Rightarrow> nat list" where
  "referenced b = concat (map (getArgList b) (executions b))"

text \<open>
  Modelled from the spec: one step of the index assignment.  \<^emph>\<open>Walking the set
  of all Operands referenced (directly or via list expansion) by all
  Invocations created in a Store, assign each a zero-based position index in
  first-reference order.\<close>  A list operand gets no index (so a child that is
  itself a list gets none, and is not expanded further), an operand that has
  an index keeps it, and any other operand takes the next value of
  \<^verbatim>\<open>oprCounter\<close>.
\<close>

definition assignIndex :: "nat \<Rightarrow> GCNBuilder \<Rightarrow> GCNBuilder" where
  "assignIndex a b =
     (let x = argArchive b ! a in
      if isList x \<or> idx x \<noteq> - 1 then b
      else b\<lparr>argArchive := (argArchive b)[a := x\<lparr>idx := oprCounter b\<rparr>],
             oprCounter := oprCounter b + 1\<rparr>)"

text \<open>Modelled from the spec: the index assignment, the walk over all references.\<close>

definition assignIndices :: "GCNBuilder \<Rightarrow> GCNBuilder" where
  "assignIndices b = fold assignIndex (referenced b) b"

text \<open>Joining strings with a delimiter between them.\<close>

fun strJoin :: "string list \<Rightarrow> string \<Rightarrow> string" where
  "strJoin [] delimiter = []"
| "strJoin [s] delimiter = s"
| "strJoin (s # t # rest) delimiter = s @ delimiter @ strJoin (t # rest) delimiter"

text \<open>
  Modelled from the spec: the body of \<^verbatim>\<open>GCNBuilder::getAllArgs\<close>: the indices are
  assigned, and the referenced operands that carry one come back in index
  order, each once.
\<close>

definition getAllArgs :: "GCNBuilder \<Rightarrow> nat list \<times> GCNBuilder" where
  "getAllArgs b =
     (let b' = assignIndices b in
      (sort_key (\<lambda>h. idx (argArchive b' ! h))
         (remdups (filter (\<lambda>h. \<not> isList (argArchive b' ! h)) (referenced b'))), b'))"

text \<open>
  Modelled from the spec: the body of \<^verbatim>\<open>GCNBuilder::getConstraints\<close>.  \<^emph>\<open>Constraint
  string: the comma-joined concatenation, in index order, of each indexed
  Operand's constraint string.\<close>
\<close>

definition getConstraints :: "GCNBuilder \<Rightarrow> string \<times> GCNBuilder" where
  "getConstraints b =
     (case getAllArgs b of
        (args, b') \<Rightarrow> (strJoin (map (\<lambda>h. constraint (argArchive b' ! h)) args) '','', b'))"

text \<open>
  Modelled from the spec: the body of \<^verbatim>\<open>GCNBuilder::getAllMLIRArgs\<close>: \<^emph>\<open>the ordered
  list of bound values corresponding 1:1 to that constraint string\<close>.
\<close>

definition getAllMLIRArgs :: "GCNBuilder \<Rightarrow> Value option list \<times> GCNBuilder" where
  "getAllMLIRArgs b =
     (case getAllArgs b of (args, b') \<Rightarrow> (map (\<lambda>h. opr_value (argArchive b' ! h)) args, b'))"

text \<open>
  Modelled from the spec: the body of \<^verbatim>\<open>Operand::dump\<close>.
  \<^emph>\<open>Argument rendering: each indexed Operand renders to \<open>%idx\<close> by default, or to
  the result of its custom renderer if one was supplied (the renderer receives
  the assigned index); a constant Operand renders to its literal text
  regardless of index.  Rendering a list Operand renders the concatenation of
  its children's renderings, separated by the separator (typically ", ").\<close>
  The recursion follows the child pointers, which nothing keeps from forming
  a cycle; the first argument bounds its depth and \<open>None\<close> says it ran out.
\<close>

fun Operand_dump :: "nat \<Rightarrow> GCNBuilder \<Rightarrow> nat \<Rightarrow> string option" where
  "Operand_dump 0 b h = None"
| "Operand_dump (Suc fuel) b h =
     (let x = argArchive b ! h in
      case repr x of
        Some f \<Rightarrow> Some (f (idx x))
      | None \<Rightarrow>
          if isList x
          then map_option (\<lambda>rs. strJoin rs '', '') (those (map (Operand_dump fuel b) (opr_list x)))
          else Some (CHR ''%'' # to_string (idx x)))"

text \<open>
  Modelled from the spec: the body of \<^verbatim>\<open>GCNInstrExecution::dump\<close>.
  \<^emph>\<open>Full instruction text: mnemonic (joined suffix tokens) + space-separated
  rendered operands, optionally with a trailing colon-joined modifier list.\<close>
  The suffix tokens are joined by a space, the mnemonic and the operands are
  set apart by a space, and the operands among themselves by ", ", as in the
  spec's first end-to-end scenario.
\<close>

definition GCNInstrExecution_dump :: "nat \<Rightarrow> GCNBuilder \<Rightarrow> GCNInstrExecution \<Rightarrow> string option" where
  "GCNInstrExecution_dump fuel b e =
     map_option
       (\<lambda>rs. strJoin (instrParts (instrs b ! instr e)) '' '' @ '' '' @ strJoin rs '', '' @
          (if mods e = [] then []
           else '' '' @ strJoin (map (\<lambda>m. to_str (modArchive b ! m)) (mods e)) '':''))
       (those (map (Operand_dump fuel b) (argsInOrder e)))"

text \<open>
  Modelled from the spec: the body of \<^verbatim>\<open>GCNBuilder::dump\<close>: the indices are
  assigned, then every Invocation is rendered; the statements come back in
  creation order (the spec does not name the separator that joins them).
\<close>

definition GCNBuilder_dump :: "nat \<Rightarrow> GCNBuilder \<Rightarrow> string list option \<times> GCNBuilder" where
  "GCNBuilder_dump fuel b =
     (let b' = assignIndices b in
      (those (map (GCNInstrExecution_dump fuel b') (executions b')), b'))"

subsection \<open>The spec's reading of the index order\<close>

text \<open>
  The distinct elements of a list of references, each at the place of its
  first occurrence.
\<close>

fun first_refs :: "nat list \<Rightarrow> nat list \<Rightarrow> nat list" where
  "first_refs seen [] = seen"
| "first_refs seen (a # rest) = first_refs (if a \<in> set seen then seen else seen @ [a]) rest"

text \<open>
  The references of a builder as the spec words them: every Invocation in
  creation order, its operands in call order, a list operand replaced by its
  children in child order; then the operands that are lists dropped.
\<close>

definition spec_references :: "GCNBuilder \<Rightarrow> nat list" where
  "spec_references b =
     filter (\<lambda>h. \<not> isList (argArchive b ! h))
       (concat (map (\<lambda>e. concat (map (\<lambda>a. if isList (argArchive b ! a)
                                            then opr_list (argArchive b ! a) else [a])
                                   (argsInOrder e)))
                (executions b)))"

definition spec_index_order :: "GCNBuilder \<Rightarrow> nat list" where
  "spec_index_order b = first_refs [] (spec_references b)"

subsection \<open>Builders as the creation routines leave them\<close>

text \<open>
  Every pointer held by an Invocation or by a list operand points into the
  operand arena, and no index has been assigned yet.
\<close>

definition valid_refs :: "GCNBuilder \<Rightarrow> bool" where
  "valid_refs b =
     ((\<forall>e \<in> set (executions b). \<forall>a \<in> set (argsInOrder e). a < length (argArchive b)) \<and>
      (\<forall>x \<in> set (argArchive b). \<forall>c \<in> set (opr_list x). c < length (argArchive b)))"

definition unindexed :: "GCNBuilder \<Rightarrow> bool" where
  "unindexed b = (oprCounter b = 0 \<and> (\<forall>x \<in> set (argArchive b). idx x = - 1))"

text \<open>
  The state of the walk: \<open>seen\<close> lists, in order, the operands that carry an
  index; the \<open>k\<close>-th of them carries \<open>k\<close>, the counter stands at their number,
  and every other operand is still at \<open>-1\<close>.
\<close>

definition indexed_by :: "GCNBuilder \<Rightarrow> nat list \<Rightarrow> bool" where
  "indexed_by b seen =
     (distinct seen \<and>
      (\<forall>h \<in> set seen. h < length (argArchive b) \<and> \<not> isList (argArchive b ! h)) \<and>
      oprCounter b = int (length seen) \<and>
      (\<forall>k < length seen. idx (argArchive b ! (seen ! k)) = int k) \<and>
      (\<forall>h < length (argArchive b). h \<notin> set seen \<longrightarrow> idx (argArchive b ! h) = - 1))"

subsection \<open>Two builders\<close>

text \<open>
  The spec's first end-to-end scenario: two bound operands with the
  constraints \<open>=r\<close> and \<open>r\<close>, passed to a two-operand instruction named
  \<open>v_mov_b32\<close>.
\<close>

definition scenario_mov :: GCNBuilder where
  "scenario_mov =
     (case newOperand (Some \<lparr>val_id = 0, getType = IntegerType 32, getLoc = 0\<rparr>) ''=r'' None
             GCNBuilder_init of (dst, b1) \<Rightarrow>
      case newOperand (Some \<lparr>val_id = 1, getType = IntegerType 32, getLoc = 0\<rparr>) ''r'' None
             b1 of (src, b2) \<Rightarrow>
      case create 0 ''v_mov_b32'' b2 of (mov, b3) \<Rightarrow>
      snd (call_operands mov [dst, src] b3))"

text \<open>
  A list operand of three constraints \<open>r\<close>, a bound operand, a constant, and
  two Invocations that refer to the list and to the bound operand more than
  once.
\<close>

definition scenario_list :: GCNBuilder where
  "scenario_list =
     (case newListOperand_constraint 3 ''r'' GCNBuilder_init of (l, b1) \<Rightarrow>
      case newOperand (Some \<lparr>val_id = 7, getType = IntegerType 32, getLoc = 0\<rparr>) ''=v'' None
             b1 of (d, b2) \<Rightarrow>
      case newConstantOperand_int 42 b2 of (k, b3) \<Rightarrow>
      case create 0 ''v_perm'' b3 of (i, b4) \<Rightarrow>
      case call_operands i [d, l, k, d] b4 of (e1, b5) \<Rightarrow>
      snd (call_operands i [l, d] b5))"

section \<open>Ops.cpp: the default operands of StoreOp and LoadOp\<close>

text \<open>
  \<^verbatim>\<open>dyn_cast<TensorType>()\<close> and \<^verbatim>\<open>dyn_cast<PointerType>()\<close> give the null type
  when the type is of another kind; the sources call a member of the result
  without a test, which on the null type is a null dereference.
\<close>

definition TensorType_getShape :: "Type \<Rightarrow> fault + int list" where
  "TensorType_getShape t =
     (case t of RankedTensorType shape e \<Rightarrow> Inr shape | _ \<Rightarrow> Inl NullPointerDereference)"

definition TensorType_getElementType :: "Type \<Rightarrow> fault + Type" where
  "TensorType_getElementType t =
     (case t of RankedTensorType shape e \<Rightarrow> Inr e | _ \<Rightarrow> Inl NullPointerDereference)"

definition PointerType_getPointeeType :: "Type \<Rightarrow> fault + Type" where
  "PointerType_getPointeeType t =
     (case t of PointerType e \<Rightarrow> Inr e | _ \<Rightarrow> Inl NullPointerDereference)"

text \<open>
  \<^verbatim>\<open>DenseIntElementsAttr::get(type, true)\<close> and \<^verbatim>\<open>DenseElementsAttr::get(type, attr)\<close>
  with one element; \<^verbatim>\<open>Builder::getZeroAttr\<close>, which has a zero for the float,
  index and integer types and for a ranked tensor of them, and the null
  attribute for any other type.  The elements of a dense attribute, position
  by position: a single element stands at every position of the shape.
\<close>

definition DenseIntElementsAttr_get :: "Type \<Rightarrow> bool \<Rightarrow> Attribute" where
  "DenseIntElementsAttr_get t v =
     DenseElementsAttr t [IntegerAttr (IntegerType 1) (if v then 1 else 0)]"

definition DenseElementsAttr_get :: "Type \<Rightarrow> Attribute option \<Rightarrow> fault + Attribute" where
  "DenseElementsAttr_get t v =
     (case v of None \<Rightarrow> Inl NullPointerDereference | Some a \<Rightarrow> Inr (DenseElementsAttr t [a]))"

fun getZeroAttr :: "Type \<Rightarrow> Attribute option" where
  "getZeroAttr (FloatType w) = Some (FloatAttr (FloatType w) 0)"
| "getZeroAttr IndexType = Some (IntegerAttr IndexType 0)"
| "getZeroAttr (IntegerType w) = Some (IntegerAttr (IntegerType w) 0)"
| "getZeroAttr (RankedTensorType shape e) =
     (case getZeroAttr e of
        None \<Rightarrow> None
      | Some z \<Rightarrow> Some (DenseElementsAttr (RankedTensorType shape e) [z]))"
| "getZeroAttr (PointerType e) = None"
| "getZeroAttr (OtherType n) = None"

definition getNumElements :: "Type \<Rightarrow> nat" where
  "getNumElements t = (case t of RankedTensorType shape e \<Rightarrow> nat (prod_list shape) | _ \<Rightarrow> 1)"

definition getValues :: "Attribute \<Rightarrow> Attribute list" where
  "getValues a =
     (case a of
        DenseElementsAttr t vs \<Rightarrow>
          (case vs of [v] \<Rightarrow> replicate (getNumElements t) v | _ \<Rightarrow> vs)
      | _ \<Rightarrow> [a])"

fun is_zero :: "Attribute \<Rightarrow> bool" where
  "is_zero (IntegerAttr t i) = (i = 0)"
| "is_zero (FloatAttr t bits) = (bits = 0)"
| "is_zero (DenseElementsAttr t vs) = list_all is_zero vs"

text \<open>
  The \<^verbatim>\<open>OpBuilder\<close> keeps the operations it has created, in order; the result
  of a new operation is a new value.  \<^verbatim>\<open>builder.create<arith::ConstantOp>(loc,
  type, attr)\<close> returns the result of the constant it inserts.
\<close>

record Operation =
  op_name :: string
  op_result :: Value
  op_value :: Attribute

record OpBuilder =
  ops :: "Operation list"
  next_id :: nat

definition create_ConstantOp :: "OpBuilder \<Rightarrow> nat \<Rightarrow> Type \<Rightarrow> Attribute \<Rightarrow> Value \<times> OpBuilder" where
  "create_ConstantOp b loc t a =
     (let v = \<lparr>val_id = next_id b, getType = t, getLoc = loc\<rparr> in
      (v, b\<lparr>ops := ops b @ [\<lparr>op_name = ''arith.constant'', op_result = v, op_value = a\<rparr>],
             next_id := next_id b + 1\<rparr>))"

text \<open>\<^verbatim>\<open>OperationState\<close>: \<^verbatim>\<open>addOperands\<close> and \<^verbatim>\<open>addTypes\<close> append.\<close>

record OperationState =
  operands :: "Value list"
  types :: "Type list"

definition addOperands :: "Value \<Rightarrow> OperationState \<Rightarrow> OperationState" where
  "addOperands v st = st\<lparr>operands := operands st @ [v]\<rparr>"

definition addTypes :: "Type list \<Rightarrow> OperationState \<Rightarrow> OperationState" where
  "addTypes ts st = st\<lparr>types := types st @ ts\<rparr>"

text \<open>\<^verbatim>\<open>void StoreOp::build(OpBuilder &builder, OperationState &state, Value ptr, Value value)\<close>\<close>

definition StoreOp_build ::
  "OpBuilder \<Rightarrow> OperationState \<Rightarrow> Value \<Rightarrow> Value \<Rightarrow> fault + OpBuilder \<times> OperationState" where
  "StoreOp_build bld state ptr val =
     (case TensorType_getShape (getType ptr) of
        Inl f \<Rightarrow> Inl f
      | Inr shape \<Rightarrow>
          (case create_ConstantOp bld (getLoc ptr)
                  (RankedTensorType shape (IntegerType 1))
                  (DenseIntElementsAttr_get (RankedTensorType shape (IntegerType 1)) True) of
             (mask', builder1) \<Rightarrow>
               Inr (builder1, addOperands mask' (addOperands val (addOperands ptr state)))))"

text \<open>\<^verbatim>\<open>void LoadOp::build(OpBuilder &builder, OperationState &state, Value ptr)\<close>\<close>

definition LoadOp_build ::
  "OpBuilder \<Rightarrow> OperationState \<Rightarrow> Value \<Rightarrow> fault + OpBuilder \<times> OperationState" where
  "LoadOp_build bld state ptr =
     (case TensorType_getElementType (getType ptr) of
        Inl f \<Rightarrow> Inl f
      | Inr pointerType \<Rightarrow>
     (case PointerType_getPointeeType pointerType of
        Inl f \<Rightarrow> Inl f
      | Inr elementType \<Rightarrow>
     (case TensorType_getShape (getType ptr) of
        Inl f \<Rightarrow> Inl f
      | Inr shape \<Rightarrow>
     (case create_ConstantOp bld (getLoc ptr)
             (RankedTensorType shape (IntegerType 1))
             (DenseIntElementsAttr_get (RankedTensorType shape (IntegerType 1)) True) of
        (mask', builder1) \<Rightarrow>
     (let resultType = RankedTensorType shape elementType in
      case DenseElementsAttr_get resultType (getZeroAttr elementType) of
        Inl f \<Rightarrow> Inl f
      | Inr zeros \<Rightarrow>
     (case create_ConstantOp builder1 (getLoc ptr) resultType zeros of
        (other, builder2) \<Rightarrow>
          Inr (builder2,
               addTypes [resultType]
                 (addOperands other (addOperands mask' (addOperands ptr state))))))))))"

text \<open>A pointer operand for the examples: a 2 by 3 tensor of pointers to \<open>f32\<close>.\<close>

definition demo_ptr :: Value where
  "demo_ptr = \<lparr>val_id = 0, getType = RankedTensorType [2, 3] (PointerType (FloatType 32)), getLoc = 5\<rparr>"

section \<open>HSACOTranslation.cpp: the code-generation pipeline\<close>

subsection \<open>LLVM objects\<close>

text \<open>
  An \<^verbatim>\<open>llvm::Module\<close> as far as the pipeline reads and writes it: identifier,
  target triple, data layout, the functions (\<^verbatim>\<open>module->functions()\<close>) with their attributes, and the
  code, which the code-generation passes rewrite.
\<close>

datatype FnAttr = AlwaysInline | OtherFnAttr string

record llvm_function =
  fn_name :: string
  fn_attrs :: "FnAttr list"

definition addFnAttr :: "FnAttr \<Rightarrow> llvm_function \<Rightarrow> llvm_function" where
  "addFnAttr a f = (if a \<in> set (fn_attrs f) then f else f\<lparr>fn_attrs := fn_attrs f @ [a]\<rparr>)"

record llvm_module =
  moduleIdentifier :: string
  targetTriple :: string
  dataLayout :: string
  functionList :: "llvm_function list"
  code :: string

datatype FPOpFusionMode = Fast | Standard | Strict

record TargetOptions =
  AllowFPOpFusion :: FPOpFusionMode
  UnsafeFPMath :: bool
  NoInfsFPMath :: bool
  NoNaNsFPMath :: bool

text \<open>\<^verbatim>\<open>llvm::TargetOptions opt;\<close> before the four assignments.\<close>

definition TargetOptions_default :: TargetOptions where
  "TargetOptions_default =
     \<lparr>AllowFPOpFusion = Standard, UnsafeFPMath = False, NoInfsFPMath = False,
      NoNaNsFPMath = False\<rparr>"

datatype RelocModel = Reloc_Static | Reloc_PIC
datatype CodeGenOptLevel = OptNone | Less | Default | Aggressive
datatype CodeGenFileType = CGFT_AssemblyFile | CGFT_ObjectFile | CGFT_Null

text \<open>A target machine is what \<^verbatim>\<open>createTargetMachine\<close> was given.\<close>

record TargetMachine =
  tm_target :: string
  tm_triple :: string
  tm_cpu :: string
  tm_features :: string
  tm_options :: TargetOptions
  tm_reloc :: RelocModel
  tm_optLevel :: CodeGenOptLevel

definition createTargetMachine ::
  "string \<Rightarrow> string \<Rightarrow> string \<Rightarrow> string \<Rightarrow> TargetOptions \<Rightarrow> RelocModel \<Rightarrow> CodeGenOptLevel
     \<Rightarrow> TargetMachine" where
  "createTargetMachine target triple cpu features opt rm ol =
     \<lparr>tm_target = target, tm_triple = triple, tm_cpu = cpu, tm_features = features,
      tm_options = opt, tm_reloc = rm, tm_optLevel = ol\<rparr>"

subsection \<open>What LLVM and the system do\<close>

text \<open>
  The library and system calls of the pipeline are parameters:
  \<^item> \<open>verify_ok\<close>: the verifier pass finds the module well formed (the pass made
    by \<^verbatim>\<open>createVerifierPass()\<close> ends the process on a broken module);
  \<^item> \<open>lookupTarget\<close>: \<^verbatim>\<open>TargetRegistry::lookupTarget\<close> on what has been registered
    and a triple: the target, or (\<open>Inl\<close>) the error text it stores in \<^verbatim>\<open>error\<close>
    when it returns the null target;
  \<^item> \<open>createDataLayout\<close> of a machine;
  \<^item> \<open>codegen\<close>: \<^verbatim>\<open>addPassesToEmitFile\<close> and \<^verbatim>\<open>pass.run(*module)\<close>: the module as
    the passes leave it and the bytes they emit;
  \<^item> \<open>tmpnam\<close>: the name given by the \<open>n\<close>-th call of \<^verbatim>\<open>std::tmpnam\<close>;
  \<^item> \<open>open_error\<close>: the error code (category and value) with which opening a
    path for writing fails, if it fails;
  \<^item> \<open>ExecuteAndWait\<close>: exit code, error message and the files left by
    running a program on arguments;
  \<^item> \<open>getBoolEnv\<close>: a boolean environment variable.
\<close>

record llvm =
  verify_ok :: "llvm_module \<Rightarrow> bool"
  lookupTarget :: "string list \<Rightarrow> string \<Rightarrow> string + string"
  createDataLayout :: "TargetMachine \<Rightarrow> string"
  codegen :: "TargetMachine \<Rightarrow> CodeGenFileType \<Rightarrow> llvm_module \<Rightarrow> llvm_module \<times> string"
  tmpnam :: "nat \<Rightarrow> string"
  open_error :: "(string \<times> string) list \<Rightarrow> string \<Rightarrow> (string \<times> int) option"
  ExecuteAndWait ::
    "string \<Rightarrow> string list \<Rightarrow> (string \<times> string) list \<Rightarrow> int \<times> string \<times> (string \<times> string) list"
  getBoolEnv :: "string \<Rightarrow> bool"

text \<open>
  The state of the process: the modules by address (\<open>None\<close> where a module has
  been destroyed), what has been registered with the target registry, the
  text written to \<^verbatim>\<open>std::cout\<close>, the files (path and content, the first entry
  for a path counts), and the number of calls of \<^verbatim>\<open>std::tmpnam\<close>.
\<close>

record world =
  heap :: "llvm_module option list"
  registered :: "string list"
  cout :: string
  files :: "(string \<times> string) list"
  tmpnam_calls :: nat

definition deref :: "world \<Rightarrow> nat \<Rightarrow> llvm_module option" where
  "deref w a = (if a < length (heap w) then heap w ! a else None)"

definition store :: "nat \<Rightarrow> llvm_module \<Rightarrow> world \<Rightarrow> world" where
  "store a m w = w\<lparr>heap := (heap w)[a := Some m]\<rparr>"

definition endl :: string where
  "endl = [CHR 0x0A]"

subsection \<open>The pipeline\<close>

text \<open>\<^verbatim>\<open>void init_llvm()\<close>: the five initialisation calls of the AMDGPU backend.\<close>

definition init_llvm :: "world \<Rightarrow> world" where
  "init_llvm w =
     w\<lparr>registered := registered w @
          [''AMDGPUTarget'', ''AMDGPUTargetInfo'', ''AMDGPUTargetMC'', ''AMDGPUAsmParser'',
           ''AMDGPUAsmPrinter'']\<rparr>"

text \<open>
  \<^verbatim>\<open>std::unique_ptr<llvm::TargetMachine> initialize_module(llvm::Module* module,
    const std::string& triple, const std::string& proc, const std::string& features)\<close>.
  The result of \<^verbatim>\<open>lookupTarget\<close> is used without a test: on the null target
  \<^verbatim>\<open>target->createTargetMachine(...)\<close> is a null dereference, and \<^verbatim>\<open>error\<close> is
  never read.
\<close>

definition initialize_module ::
  "llvm \<Rightarrow> world \<Rightarrow> nat \<Rightarrow> string \<Rightarrow> string \<Rightarrow> string \<Rightarrow> fault + TargetMachine \<times> world" where
  "initialize_module env w module triple proc features =
     (case deref w module of
        None \<Rightarrow> Inl NullPointerDereference
      | Some m \<Rightarrow>
          if \<not> verify_ok env m then Inl VerifierFatalError
          else
            let m1 = m\<lparr>targetTriple := triple\<rparr> in
            case lookupTarget env (registered w) (targetTriple m1) of
              Inl error \<Rightarrow> Inl NullPointerDereference
            | Inr target \<Rightarrow>
                let opt = TargetOptions_default
                      \<lparr>AllowFPOpFusion := Fast, UnsafeFPMath := False, NoInfsFPMath := False,
                       NoNaNsFPMath := True\<rparr>;
                    machine = createTargetMachine target (targetTriple m1) proc features opt
                                Reloc_PIC Aggressive;
                    m2 = m1\<lparr>dataLayout := createDataLayout env machine\<rparr>;
                    m3 = m2\<lparr>functionList := map (addFnAttr AlwaysInline) (functionList m2)\<rparr>
                in Inr (machine, store module m3 w))"

text \<open>\<^verbatim>\<open>std::string generate_amdgcn_assembly(llvm::Module* module, ...)\<close>\<close>

definition generate_amdgcn_assembly ::
  "llvm \<Rightarrow> world \<Rightarrow> nat \<Rightarrow> string \<Rightarrow> string \<Rightarrow> string \<Rightarrow> fault + string \<times> world" where
  "generate_amdgcn_assembly env w module triple proc features =
     (case initialize_module env w module triple proc features of
        Inl f \<Rightarrow> Inl f
      | Inr (machine, w1) \<Rightarrow>
          (case deref w1 module of
             None \<Rightarrow> Inl NullPointerDereference
           | Some m \<Rightarrow>
               (case codegen env machine CGFT_AssemblyFile m of
                  (m', amdgcn) \<Rightarrow>
                    let w2 = store module m' w1;
                        w3 = (if getBoolEnv env ''AMDGCN_ENABLE_DUMP''
                              then w2\<lparr>cout := cout w2 @ ''// -----// AMDGCN Dump //----- //'' @
                                       endl @ amdgcn @ endl\<rparr>
                              else w2)
                    in Inr (amdgcn, w3))))"

text \<open>
  The last block of \<^verbatim>\<open>generate_hsaco\<close>, under its comment \<^verbatim>\<open>// generate HASCO file\<close>:
  the path, the call of the linker, the report on \<^verbatim>\<open>std::cout\<close> when the exit
  code is not zero, and \<^verbatim>\<open>return hsaco_path;\<close> in either case.
\<close>

definition link_hsaco :: "llvm \<Rightarrow> string \<Rightarrow> string \<Rightarrow> world \<Rightarrow> string \<times> world" where
  "link_hsaco env kernel_name isabin_path w =
     (let hsaco_path = kernel_name @ ''.hsaco'' in
      case ExecuteAndWait env ''/opt/rocm/llvm/bin/ld.lld''
             [''/opt/rocm/llvm/bin/ld.lld'', ''-flavor'', ''gnu'', ''-shared'', ''-o'',
              hsaco_path, isabin_path] (files w) of
        (lld_result, error_message, files') \<Rightarrow>
          let w1 = w\<lparr>files := files'\<rparr>;
              w2 = (if lld_result \<noteq> 0
                    then w1\<lparr>cout := cout w1 @ ''ld.lld execute fail: '' @ endl @
                             error_message @ endl @ to_string lld_result @ endl\<rparr>
                    else w1)
          in (hsaco_path, w2))"

text \<open>
  \<^verbatim>\<open>std::string generate_hsaco(llvm::Module* module, ...)\<close>.  A failure to open
  the object file is written to \<^verbatim>\<open>std::cout\<close> and the routine goes on; the
  passes then have no file to write to.  The stream's buffering is not
  modelled: what the passes emit is the content of the file.
\<close>

definition generate_hsaco ::
  "llvm \<Rightarrow> world \<Rightarrow> nat \<Rightarrow> string \<Rightarrow> string \<Rightarrow> string \<Rightarrow> fault + string \<times> world" where
  "generate_hsaco env w module triple proc features =
     (case initialize_module env w module triple proc features of
        Inl f \<Rightarrow> Inl f
      | Inr (machine, w1) \<Rightarrow>
          (case deref w1 module of
             None \<Rightarrow> Inl NullPointerDereference
           | Some m \<Rightarrow>
               let kernel_name = tmpnam env (tmpnam_calls w1) @ ''_'' @ moduleIdentifier m;
                   w2 = w1\<lparr>tmpnam_calls := tmpnam_calls w1 + 1\<rparr>;
                   isabin_path = kernel_name @ ''.o'';
                   ec = open_error env (files w2) isabin_path;
                   w3 = (case ec of
                           Some (category, val) \<Rightarrow>
                             w2\<lparr>cout := cout w2 @ isabin_path @
                                  '' was not created. error code: '' @ category @ '':'' @
                                  to_string val @ endl\<rparr>
                         | None \<Rightarrow> w2\<lparr>files := (isabin_path, []) # files w2\<rparr>)
               in case codegen env machine CGFT_ObjectFile m of
                    (m', obj) \<Rightarrow>
                      let w4 = store module m' w3;
                          w5 = (if ec = None then w4\<lparr>files := (isabin_path, obj) # files w4\<rparr>
                                else w4)
                      in Inr (link_hsaco env kernel_name isabin_path w5)))"

text \<open>
  \<^verbatim>\<open>llvm::CloneModule(*module)\<close>: a new module object with the content of the
  given one, at an address of its own; and the end of the owning
  \<^verbatim>\<open>unique_ptr\<close>, which destroys it.
\<close>

definition CloneModule :: "world \<Rightarrow> nat \<Rightarrow> fault + nat \<times> world" where
  "CloneModule w module =
     (case deref w module of
        None \<Rightarrow> Inl NullPointerDereference
      | Some m \<Rightarrow> Inr (length (heap w), w\<lparr>heap := heap w @ [Some m]\<rparr>))"

definition destroy :: "nat \<Rightarrow> world \<Rightarrow> world" where
  "destroy a w = w\<lparr>heap := (heap w)[a := None]\<rparr>"

text \<open>
  \<^verbatim>\<open>std::tuple<std::string, std::string> llir_to_amdgcn_and_hsaco(llvm::Module* module,
    std::string cc)\<close>
\<close>

definition llir_to_amdgcn_and_hsaco ::
  "llvm \<Rightarrow> world \<Rightarrow> nat \<Rightarrow> string \<Rightarrow> fault + (string \<times> string) \<times> world" where
  "llir_to_amdgcn_and_hsaco env w module cc =
     (let triple = ''amdgcn-amd-amdhsa'';
          proc = cc;
          features = ''+sramecc,-xnack'';
          w1 = init_llvm w
      in case CloneModule w1 module of
           Inl f \<Rightarrow> Inl f
         | Inr (module_obj, w2) \<Rightarrow>
             (case generate_amdgcn_assembly env w2 module triple proc features of
                Inl f \<Rightarrow> Inl f
              | Inr (amdgcn, w3) \<Rightarrow>
                  (case generate_hsaco env w3 module_obj triple proc features of
                     Inl f \<Rightarrow> Inl f
                   | Inr (hsaco_path, w4) \<Rightarrow>
                       Inr ((amdgcn, hsaco_path), destroy module_obj w4))))"


subsection \<open>An environment for the examples\<close>

text \<open>
  A registry that knows the \<open>amdgcn\<close> triples once the AMDGPU target is
  registered, passes that mark the code as lowered, no failure to open a file,
  and a linker that ends with the given exit code, writing the output file
  only when that is 0.
\<close>

definition example_llvm :: "int \<Rightarrow> llvm" where
  "example_llvm exit_code =
     \<lparr>verify_ok = (\<lambda>m. True),
      lookupTarget = (\<lambda>reg triple.
        if ''AMDGPUTarget'' \<in> set reg \<and> take 6 triple = ''amdgcn'' then Inr ''amdgcn''
        else Inl (''No available targets are compatible with triple '' @ triple)),
      createDataLayout = (\<lambda>tm. ''e-p:64:64''),
      codegen = (\<lambda>tm ft m.
        (m\<lparr>code := ''lowered '' @ code m\<rparr>,
         (if ft = CGFT_AssemblyFile then ''asm of '' else ''obj of '') @ code m)),
      tmpnam = (\<lambda>n. ''/tmp/file'' @ to_string (int n)),
      open_error = (\<lambda>fs path. None),
      ExecuteAndWait = (\<lambda>prog args fs.
        if exit_code = 0 then (0, [], (args ! 5, ''linked'') # fs)
        else (exit_code, ''ld.lld: error: cannot link'', fs)),
      getBoolEnv = (\<lambda>name. False)\<rparr>"

definition example_module :: llvm_module where
  "example_module =
     \<lparr>moduleIdentifier = ''kernel'', targetTriple = [], dataLayout = [],
      functionList = [\<lparr>fn_name = ''add'', fn_attrs = []\<rparr>], code = ''ir''\<rparr>"

definition example_world :: world where
  "example_world =
     \<lparr>heap = [Some example_module], registered = [], cout = [], files = [], tmpnam_calls = 0\<rparr>"



section \<open>Theorems: the instruction model\<close>

lemma instrParts_o_chain:
  "instrParts (o_chain calls i) = instrParts i @ map fst (filter snd calls)"
  by (induction calls arbitrary: i) (auto simp: o_suffix_def)

lemma builder_o_chain: "builder (o_chain calls i) = builder i"
  by (induction calls arbitrary: i) (auto simp: o_suffix_def)

text \<open>
  Claim C5.  \<open>float_op_type\<close> appends exactly \<open>f16\<close> for width 16, \<open>f32\<close> for
  width 32 and \<open>f64\<close> for width 64; width 8 ends in the assertion failure and
  no instruction (so no suffix, right or wrong) comes back; every other width
  returns the instruction as it was.
\<close>

theorem float_op_type_mapping:
  "float_op_type 16 i = Inr (i\<lparr>instrParts := instrParts i @ [''f16'']\<rparr>) \<and>
   float_op_type 32 i = Inr (i\<lparr>instrParts := instrParts i @ [''f32'']\<rparr>) \<and>
   float_op_type 64 i = Inr (i\<lparr>instrParts := instrParts i @ [''f64'']\<rparr>) \<and>
   float_op_type 8 i = Inl AssertionFailure \<and>
   (w \<notin> {8, 16, 32, 64} \<longrightarrow> float_op_type w i = Inr i)"
  by (simp add: float_op_type_def cpp_assert_def o_suffix_def Byte_def Short_def
      Dword_def Qword_def)

theorem float_op_type_mapping_witness:
  "float_op_type 16 (GCNInstrBase 0 ''v_add'') =
     Inr \<lparr>builder = 0, instrParts = [''v_add'', ''f16'']\<rparr> \<and>
   float_op_type 8 (GCNInstrBase 0 ''v_add'') = Inl AssertionFailure \<and>
   (24::int) \<notin> {8, 16, 32, 64} \<and>
   float_op_type 24 (GCNInstrBase 0 ''v_add'') =
     Inr \<lparr>builder = 0, instrParts = [''v_add'']\<rparr>"
  using float_op_type_mapping [of "GCNInstrBase 0 ''v_add''" 24]
  by (simp add: GCNInstrBase_def o_suffix_def)

text \<open>
  Claim C6.  \<open>load_type\<close> appends \<open>ubyte\<close>, \<open>ushort\<close>, \<open>dword\<close>, \<open>dwordx2\<close> and
  \<open>store_type\<close> appends \<open>byte\<close>, \<open>short\<close>, \<open>dword\<close>, \<open>dwordx2\<close> for the widths
  8, 16, 32, 64; for every other width both return the instruction unchanged.
  Neither function has a failing branch: both are total and return an
  instruction, not a \<open>fault\<close>.
\<close>

theorem load_store_type_mapping:
  "load_type 8 i = i\<lparr>instrParts := instrParts i @ [''ubyte'']\<rparr> \<and>
   load_type 16 i = i\<lparr>instrParts := instrParts i @ [''ushort'']\<rparr> \<and>
   load_type 32 i = i\<lparr>instrParts := instrParts i @ [''dword'']\<rparr> \<and>
   load_type 64 i = i\<lparr>instrParts := instrParts i @ [''dwordx2'']\<rparr> \<and>
   store_type 8 i = i\<lparr>instrParts := instrParts i @ [''byte'']\<rparr> \<and>
   store_type 16 i = i\<lparr>instrParts := instrParts i @ [''short'']\<rparr> \<and>
   store_type 32 i = i\<lparr>instrParts := instrParts i @ [''dword'']\<rparr> \<and>
   store_type 64 i = i\<lparr>instrParts := instrParts i @ [''dwordx2'']\<rparr> \<and>
   (w \<notin> {8, 16, 32, 64} \<longrightarrow> load_type w i = i \<and> store_type w i = i)"
  by (simp add: load_type_def store_type_def o_suffix_def Byte_def Short_def
      Dword_def Qword_def)

theorem load_store_type_mapping_witness:
  "load_type 8 (GCNInstrBase 0 ''global_load'') =
     \<lparr>builder = 0, instrParts = [''global_load'', ''ubyte'']\<rparr> \<and>
   store_type 16 (GCNInstrBase 0 ''global_store'') =
     \<lparr>builder = 0, instrParts = [''global_store'', ''short'']\<rparr> \<and>
   (128::int) \<notin> {8, 16, 32, 64} \<and>
   load_type 128 (GCNInstrBase 0 ''global_load'') =
     \<lparr>builder = 0, instrParts = [''global_load'']\<rparr> \<and>
   store_type 128 (GCNInstrBase 0 ''global_store'') =
     \<lparr>builder = 0, instrParts = [''global_store'']\<rparr>"
  using load_store_type_mapping [of "GCNInstrBase 0 ''global_load''" 128]
    load_store_type_mapping [of "GCNInstrBase 0 ''global_store''" 128]
  by (simp add: GCNInstrBase_def o_suffix_def)

text \<open>
  Claim C7.  Constructing an instruction with name \<open>n\<close> leaves the suffix
  tokens \<open>[n]\<close>; \<open>o(s, p)\<close> appends \<open>s\<close> when \<open>p\<close> is true and changes nothing when
  \<open>p\<close> is false; in both cases what comes back is the instruction itself (same
  owning builder, nothing but the token list touched); a chain of calls
  appends, in call order, the suffixes whose predicate is true.
\<close>

theorem o_suffix_accumulates:
  "instrParts (GCNInstrBase b n) = [n] \<and>
   builder (GCNInstrBase b n) = b \<and>
   o_suffix s True i = i\<lparr>instrParts := instrParts i @ [s]\<rparr> \<and>
   o_suffix s False i = i \<and>
   builder (o_suffix s p i) = builder i \<and>
   instrParts (o_suffix s p i) = (if p then instrParts i @ [s] else instrParts i) \<and>
   instrParts (o_chain calls i) = instrParts i @ map fst (filter snd calls) \<and>
   builder (o_chain calls i) = builder i"
  by (simp add: GCNInstrBase_def o_suffix_def instrParts_o_chain builder_o_chain)

theorem o_suffix_accumulates_witness:
  "instrParts (o_chain [(''b32'', True), (''e64'', False), (''sdwa'', True)]
     (GCNInstrBase 7 ''v_mov'')) = [''v_mov'', ''b32'', ''sdwa''] \<and>
   builder (o_chain [(''b32'', True), (''e64'', False), (''sdwa'', True)]
     (GCNInstrBase 7 ''v_mov'')) = 7"
  using o_suffix_accumulates [of 7 "''v_mov''" "''x''" "GCNInstrBase 7 ''v_mov''" True
      "[(''b32'', True), (''e64'', False), (''sdwa'', True)]"]
  by simp

section \<open>Theorems: index assignment\<close>

lemma assignIndex_arch:
  "argArchive (assignIndex a b) =
     (if isList (argArchive b ! a) \<or> idx (argArchive b ! a) \<noteq> - 1 then argArchive b
      else (argArchive b)[a := (argArchive b ! a)\<lparr>idx := oprCounter b\<rparr>])"
  by (simp add: assignIndex_def Let_def)

lemma assignIndex_frame:
  "length (argArchive (assignIndex a b)) = length (argArchive b)"
  "executions (assignIndex a b) = executions b"
  "instrs (assignIndex a b) = instrs b"
  "modArchive (assignIndex a b) = modArchive b"
  by (simp_all add: assignIndex_def Let_def)

lemma nth_update_field:
  assumes "\<And>x v. f (x\<lparr>idx := v\<rparr>) = f x"
  shows "f (xs[a := (xs ! a)\<lparr>idx := v\<rparr>] ! h) = f (xs ! h)"
proof (cases "a < length xs")
  case True
  then show ?thesis by (cases "h = a") (simp_all add: assms)
next
  case False
  then show ?thesis by (simp add: list_update_beyond)
qed

lemma assignIndex_fields:
  "constraint (argArchive (assignIndex a b) ! h) = constraint (argArchive b ! h)"
  "opr_value (argArchive (assignIndex a b) ! h) = opr_value (argArchive b ! h)"
  "opr_list (argArchive (assignIndex a b) ! h) = opr_list (argArchive b ! h)"
  "repr (argArchive (assignIndex a b) ! h) = repr (argArchive b ! h)"
  unfolding assignIndex_arch
  by (simp_all add: nth_update_field)

lemma assignIndex_isList:
  "isList (argArchive (assignIndex a b) ! h) = isList (argArchive b ! h)"
  by (simp add: isList_def assignIndex_fields)

lemma fold_assignIndex_frame:
  "length (argArchive (fold assignIndex rs b)) = length (argArchive b)"
  "executions (fold assignIndex rs b) = executions b"
  "instrs (fold assignIndex rs b) = instrs b"
  "modArchive (fold assignIndex rs b) = modArchive b"
  by (induction rs arbitrary: b; simp add: assignIndex_frame)+

lemma fold_assignIndex_fields:
  "constraint (argArchive (fold assignIndex rs b) ! h) = constraint (argArchive b ! h)"
  "opr_value (argArchive (fold assignIndex rs b) ! h) = opr_value (argArchive b ! h)"
  "opr_list (argArchive (fold assignIndex rs b) ! h) = opr_list (argArchive b ! h)"
  "repr (argArchive (fold assignIndex rs b) ! h) = repr (argArchive b ! h)"
  by (induction rs arbitrary: b; simp add: assignIndex_fields)+

lemma fold_assignIndex_isList:
  "isList (argArchive (fold assignIndex rs b) ! h) = isList (argArchive b ! h)"
  by (simp add: isList_def fold_assignIndex_fields)

lemma assignIndex_keeps_assigned:
  assumes "idx (argArchive b ! h) \<noteq> - 1"
  shows "idx (argArchive (assignIndex a b) ! h) = idx (argArchive b ! h)"
proof (cases "a < length (argArchive b)")
  case True
  then show ?thesis using assms by (cases "h = a") (auto simp: assignIndex_arch)
next
  case False
  then show ?thesis by (simp add: assignIndex_arch list_update_beyond)
qed

lemma fold_assignIndex_keeps_assigned:
  "idx (argArchive b ! h) \<noteq> - 1 \<Longrightarrow>
   idx (argArchive (fold assignIndex rs b) ! h) = idx (argArchive b ! h)"
  by (induction rs arbitrary: b) (simp_all add: assignIndex_keeps_assigned)

lemma indexed_by_idx_mem:
  assumes "indexed_by b seen" "a \<in> set seen"
  shows "idx (argArchive b ! a) \<noteq> - 1"
proof -
  from assms(2) obtain k where k: "k < length seen" "seen ! k = a"
    by (auto simp: in_set_conv_nth)
  with assms(1) have "idx (argArchive b ! a) = int k"
    by (auto simp: indexed_by_def)
  then show ?thesis by simp
qed

lemma assignIndex_step:
  assumes inv: "indexed_by b seen" and a: "a < length (argArchive b)"
    and nl: "\<not> isList (argArchive b ! a)"
  shows "indexed_by (assignIndex a b) (if a \<in> set seen then seen else seen @ [a])"
proof (cases "a \<in> set seen")
  case True
  then have "assignIndex a b = b"
    using indexed_by_idx_mem [OF inv True] by (simp add: assignIndex_def Let_def)
  with True inv show ?thesis by simp
next
  case False
  with inv a have m1: "idx (argArchive b ! a) = - 1"
    by (simp add: indexed_by_def)
  let ?b = "assignIndex a b"
  have arch: "argArchive ?b = (argArchive b)[a := (argArchive b ! a)\<lparr>idx := oprCounter b\<rparr>]"
    and cnt: "oprCounter ?b = oprCounter b + 1"
    using m1 nl by (simp_all add: assignIndex_def Let_def)
  have d: "distinct (seen @ [a])"
    using inv False by (simp add: indexed_by_def)
  have v: "\<forall>h \<in> set (seen @ [a]). h < length (argArchive ?b) \<and> \<not> isList (argArchive ?b ! h)"
    using inv a nl by (auto simp: indexed_by_def assignIndex_frame assignIndex_isList)
  have c: "oprCounter ?b = int (length (seen @ [a]))"
    using inv cnt by (simp add: indexed_by_def)
  have i: "idx (argArchive ?b ! ((seen @ [a]) ! k)) = int k" if k: "k < length (seen @ [a])" for k
  proof (cases "k < length seen")
    case True
    then have "seen ! k \<in> set seen" by simp
    then have "seen ! k \<noteq> a" using False by auto
    then show ?thesis using True inv arch by (simp add: nth_append indexed_by_def)
  next
    case False
    with k have "k = length seen" by simp
    then show ?thesis using inv arch a by (simp add: nth_append indexed_by_def)
  qed
  have r: "idx (argArchive ?b ! h) = - 1"
    if "h < length (argArchive ?b)" "h \<notin> set (seen @ [a])" for h
    using that inv arch by (auto simp: indexed_by_def)
  have "indexed_by ?b (seen @ [a])"
    unfolding indexed_by_def using d v c i r by blast
  with False show ?thesis by simp
qed

lemma assignIndex_isList_skip: "isList (argArchive b ! a) \<Longrightarrow> assignIndex a b = b"
  by (simp add: assignIndex_def Let_def)

lemma fold_assignIndex_indexed_by:
  "indexed_by b seen \<Longrightarrow> \<forall>a \<in> set rs. a < length (argArchive b) \<Longrightarrow>
   indexed_by (fold assignIndex rs b)
     (first_refs seen (filter (\<lambda>h. \<not> isList (argArchive b ! h)) rs))"
proof (induction rs arbitrary: b seen)
  case Nil
  then show ?case by simp
next
  case (Cons a rs)
  show ?case
  proof (cases "isList (argArchive b ! a)")
    case True
    then show ?thesis using Cons by (simp add: assignIndex_isList_skip)
  next
    case False
    have "indexed_by (assignIndex a b) (if a \<in> set seen then seen else seen @ [a])"
      using Cons.prems False by (intro assignIndex_step) auto
    moreover have "\<forall>x \<in> set rs. x < length (argArchive (assignIndex a b))"
      using Cons.prems by (simp add: assignIndex_frame)
    ultimately have "indexed_by (fold assignIndex rs (assignIndex a b))
       (first_refs (if a \<in> set seen then seen else seen @ [a])
          (filter (\<lambda>h. \<not> isList (argArchive (assignIndex a b) ! h)) rs))"
      by (rule Cons.IH)
    then show ?thesis using False by (simp add: assignIndex_isList)
  qed
qed

lemma referenced_valid:
  assumes "valid_refs b"
  shows "\<forall>a \<in> set (referenced b). a < length (argArchive b)"
proof
  fix a assume "a \<in> set (referenced b)"
  then obtain e r where e: "e \<in> set (executions b)" and r: "r \<in> set (argsInOrder e)"
    and a: "a \<in> set (if isList (argArchive b ! r) then opr_list (argArchive b ! r) else [r])"
    by (auto simp: referenced_def getArgList_def)
  from assms e r have rv: "r < length (argArchive b)" by (auto simp: valid_refs_def)
  then have "argArchive b ! r \<in> set (argArchive b)" by simp
  with assms a rv show "a < length (argArchive b)"
    by (auto simp: valid_refs_def split: if_splits)
qed

lemma getArgList_fun:
  "getArgList b =
     (\<lambda>e. concat (map (\<lambda>a. if isList (argArchive b ! a) then opr_list (argArchive b ! a) else [a])
       (argsInOrder e)))"
  by (rule ext) (simp add: getArgList_def)

lemma spec_references_eq:
  "spec_references b = filter (\<lambda>h. \<not> isList (argArchive b ! h)) (referenced b)"
  by (simp add: spec_references_def referenced_def getArgList_fun)

lemma unindexed_indexed_by: "unindexed b \<Longrightarrow> indexed_by b []"
  by (auto simp: unindexed_def indexed_by_def)

lemma assignIndices_indexed_by:
  assumes "valid_refs b" "unindexed b"
  shows "indexed_by (assignIndices b) (spec_index_order b)"
  unfolding assignIndices_def spec_index_order_def spec_references_eq
  using fold_assignIndex_indexed_by [OF unindexed_indexed_by [OF assms(2)] referenced_valid [OF assms(1)]] .

lemma set_first_refs: "set (first_refs seen rs) = set seen \<union> set rs"
  by (induction rs arbitrary: seen) auto

lemma referenced_fold_assignIndex: "referenced (fold assignIndex rs b) = referenced b"
  by (simp add: referenced_def getArgList_fun fold_assignIndex_frame
      fold_assignIndex_isList fold_assignIndex_fields cong: if_cong)

lemma referenced_assignIndices: "referenced (assignIndices b) = referenced b"
  by (simp add: assignIndices_def referenced_fold_assignIndex)

lemma assignIndices_idempotent:
  assumes "valid_refs b" "unindexed b"
  shows "assignIndices (assignIndices b) = assignIndices b"
proof -
  let ?b = "assignIndices b"
  have inv: "indexed_by ?b (spec_index_order b)" by (rule assignIndices_indexed_by [OF assms])
  have noop: "assignIndex a ?b = ?b" if "a \<in> set (referenced b)" for a
  proof (cases "isList (argArchive ?b ! a)")
    case True
    then show ?thesis by (rule assignIndex_isList_skip)
  next
    case False
    then have "\<not> isList (argArchive b ! a)"
      by (simp add: assignIndices_def fold_assignIndex_isList)
    with that have "a \<in> set (spec_index_order b)"
      by (simp add: spec_index_order_def set_first_refs spec_references_eq)
    from indexed_by_idx_mem [OF inv this] show ?thesis
      by (simp add: assignIndex_def Let_def)
  qed
  have "fold assignIndex rs ?b = ?b" if "set rs \<subseteq> set (referenced b)" for rs
    using that by (induction rs) (auto simp: noop)
  then show ?thesis
    unfolding assignIndices_def [of ?b] referenced_assignIndices by simp
qed

lemma filter_single:
  "distinct xs \<Longrightarrow> k \<in> set xs \<Longrightarrow> (\<And>x. x \<in> set xs \<Longrightarrow> P x = (x = k)) \<Longrightarrow> filter P xs = [k]"
proof (induction xs)
  case Nil
  then show ?case by simp
next
  case (Cons x xs)
  show ?case
  proof (cases "x = k")
    case True
    then have "filter P xs = []" using Cons.prems by (auto simp: filter_empty_conv)
    with True Cons.prems show ?thesis by simp
  next
    case False
    then have "filter P xs = [k]" using Cons by auto
    with False Cons.prems show ?thesis by simp
  qed
qed

lemma indexed_by_map_idx:
  "indexed_by b seen \<Longrightarrow> map (\<lambda>h. idx (argArchive b ! h)) seen = map int [0..<length seen]"
  by (auto simp: indexed_by_def intro!: nth_equalityI)

lemma indexed_by_inj:
  assumes "indexed_by b seen" "x \<in> set seen" "k \<in> set seen"
  shows "(idx (argArchive b ! k) = idx (argArchive b ! x)) = (x = k)"
proof -
  from assms obtain i j where "i < length seen" "seen ! i = x" "j < length seen" "seen ! j = k"
    by (auto simp: in_set_conv_nth)
  with assms(1) show ?thesis by (auto simp: indexed_by_def)
qed

lemma sort_by_idx:
  assumes inv: "indexed_by b seen" and "distinct xs" "set xs = set seen"
  shows "sort_key (\<lambda>h. idx (argArchive b ! h)) xs = seen"
proof (rule properties_for_sort_key)
  have "distinct seen" using inv by (simp add: indexed_by_def)
  with assms show "mset seen = mset xs"
    by (simp add: set_eq_iff_mset_eq_distinct [symmetric])
  show "sorted (map (\<lambda>h. idx (argArchive b ! h)) seen)"
    by (simp add: indexed_by_map_idx [OF inv] sorted_map)
  fix k assume k: "k \<in> set seen"
  have d: "distinct seen" using inv by (simp add: indexed_by_def)
  have "filter (\<lambda>x. idx (argArchive b ! k) = idx (argArchive b ! x)) seen = [k]"
    using d k indexed_by_inj [OF inv _ k] by (intro filter_single) auto
  moreover have "filter (\<lambda>x. idx (argArchive b ! k) = idx (argArchive b ! x)) xs = [k]"
    using assms(2,3) k indexed_by_inj [OF inv _ k] by (intro filter_single) auto
  ultimately show "filter (\<lambda>x. idx (argArchive b ! k) = idx (argArchive b ! x)) seen =
    filter (\<lambda>x. idx (argArchive b ! k) = idx (argArchive b ! x)) xs" by simp
qed

lemma getAllArgs_spec:
  assumes "valid_refs b" "unindexed b"
  shows "fst (getAllArgs b) = spec_index_order b"
proof -
  have "set (remdups (filter (\<lambda>h. \<not> isList (argArchive (assignIndices b) ! h))
          (referenced (assignIndices b)))) = set (spec_index_order b)"
    by (simp add: referenced_assignIndices spec_index_order_def set_first_refs
        spec_references_eq)
      (simp add: assignIndices_def fold_assignIndex_isList)
  then show ?thesis
    unfolding getAllArgs_def Let_def fst_conv
    by (intro sort_by_idx [OF assignIndices_indexed_by [OF assms]]) auto
qed

lemma remdups_drop_seen: "a \<in> set ys \<Longrightarrow> remdups (xs @ a # ys) = remdups (xs @ ys)"
  by (induction xs) auto

lemma first_refs_conv:
  "first_refs seen rs = rev (remdups (rev (seen @ rs)))" if "distinct seen"
  using that
proof (induction rs arbitrary: seen)
  case Nil
  then show ?case by (simp add: distinct_remdups_id)
next
  case (Cons a rs)
  then show ?case by (auto simp: remdups_drop_seen)
qed

section \<open>Theorems: the creation routines keep the builder well formed\<close>

lemma valid_refs_push:
  assumes "valid_refs b" "\<forall>c \<in> set (opr_list x). c \<le> length (argArchive b)"
  shows "valid_refs (b\<lparr>argArchive := argArchive b @ [x]\<rparr>)"
  using assms by (fastforce simp: valid_refs_def less_Suc_eq_le)

lemma unindexed_push:
  "unindexed b \<Longrightarrow> idx x = - 1 \<Longrightarrow> unindexed (b\<lparr>argArchive := argArchive b @ [x]\<rparr>)"
  by (auto simp: unindexed_def)

lemma set_update_cases: "y \<in> set (xs[l := z]) \<Longrightarrow> y = z \<and> l < length xs \<or> y \<in> set xs"
  by (cases "l < length xs") (auto simp: list_update_beyond dest: subsetD [OF set_update_subset_insert])

lemma valid_refs_listAppend:
  assumes "valid_refs b" "a < length (argArchive b)"
  shows "valid_refs (at_operand l (listAppend a) b)"
  unfolding valid_refs_def
proof (intro conjI ballI)
  fix e r assume "e \<in> set (executions (at_operand l (listAppend a) b))" "r \<in> set (argsInOrder e)"
  then show "r < length (argArchive (at_operand l (listAppend a) b))"
    using assms(1) by (auto simp: valid_refs_def at_operand_def)
next
  fix x c assume x: "x \<in> set (argArchive (at_operand l (listAppend a) b))" and c: "c \<in> set (opr_list x)"
  from x have "x = listAppend a (argArchive b ! l) \<and> l < length (argArchive b) \<or> x \<in> set (argArchive b)"
    by (auto simp: at_operand_def dest: set_update_cases)
  moreover have "argArchive b ! l \<in> set (argArchive b)" if "l < length (argArchive b)"
    using that by simp
  ultimately have "c < length (argArchive b)"
    using c assms by (fastforce simp: valid_refs_def listAppend_def)
  then show "c < length (argArchive (at_operand l (listAppend a) b))"
    by (simp add: at_operand_def)
qed

lemma unindexed_listAppend:
  assumes "unindexed b"
  shows "unindexed (at_operand l (listAppend a) b)"
  unfolding unindexed_def
proof (intro conjI ballI)
  show "oprCounter (at_operand l (listAppend a) b) = 0"
    using assms by (simp add: unindexed_def at_operand_def)
next
  fix x assume "x \<in> set (argArchive (at_operand l (listAppend a) b))"
  then have "x = listAppend a (argArchive b ! l) \<and> l < length (argArchive b) \<or> x \<in> set (argArchive b)"
    by (auto simp: at_operand_def dest: set_update_cases)
  moreover have "argArchive b ! l \<in> set (argArchive b)" if "l < length (argArchive b)"
    using that by simp
  ultimately show "idx x = - 1"
    using assms by (fastforce simp: unindexed_def listAppend_def)
qed

lemma init_wf: "valid_refs GCNBuilder_init \<and> unindexed GCNBuilder_init"
  by (simp add: valid_refs_def unindexed_def GCNBuilder_init_def)

lemma newOperand_wf:
  assumes "valid_refs b \<and> unindexed b"
  shows "valid_refs (snd (newOperand v c f b)) \<and> unindexed (snd (newOperand v c f b)) \<and>
         fst (newOperand v c f b) < length (argArchive (snd (newOperand v c f b)))"
  using assms by (simp add: newOperand_def valid_refs_push unindexed_push Operand_ctor_def)

lemma newOperand_constraint_wf:
  assumes "valid_refs b \<and> unindexed b"
  shows "valid_refs (snd (newOperand_constraint c b)) \<and> unindexed (snd (newOperand_constraint c b)) \<and>
         fst (newOperand_constraint c b) < length (argArchive (snd (newOperand_constraint c b)))"
  unfolding newOperand_constraint_def by (rule newOperand_wf [OF assms])

lemma newConstantOperand_wf:
  assumes "valid_refs b \<and> unindexed b"
  shows "valid_refs (snd (newConstantOperand v b)) \<and> unindexed (snd (newConstantOperand v b)) \<and>
         fst (newConstantOperand v b) < length (argArchive (snd (newConstantOperand v b)))"
  using assms by (simp add: newConstantOperand_def valid_refs_push unindexed_push Operand_default_def)

lemma newOperand_private_wf:
  assumes "valid_refs b \<and> unindexed b"
  shows "valid_refs (snd (newOperand_private b)) \<and> unindexed (snd (newOperand_private b)) \<and>
         fst (newOperand_private b) < length (argArchive (snd (newOperand_private b)))"
  using assms by (simp add: newOperand_private_def valid_refs_push unindexed_push Operand_default_def)

lemma append_child_wf:
  assumes "valid_refs b \<and> unindexed b"
  shows "valid_refs (at_operand l (listAppend (fst (newOperand v c f b))) (snd (newOperand v c f b))) \<and>
         unindexed (at_operand l (listAppend (fst (newOperand v c f b))) (snd (newOperand v c f b)))"
  using newOperand_wf [OF assms, of v c f]
  by (simp add: valid_refs_listAppend unindexed_listAppend)

lemma newListOperand_items_loop_wf:
  "valid_refs b \<and> unindexed b \<Longrightarrow>
   valid_refs (newListOperand_items_loop l items b) \<and> unindexed (newListOperand_items_loop l items b)"
proof (induction items arbitrary: b)
  case Nil
  then show ?case by simp
next
  case (Cons item items)
  show ?case
    using Cons.IH [OF append_child_wf [OF Cons.prems, of l "fst item" "snd item" None]]
    by (simp add: split_beta)
qed

lemma newListOperand_value_loop_wf:
  "valid_refs b \<and> unindexed b \<Longrightarrow>
   valid_refs (newListOperand_value_loop l n v c b) \<and> unindexed (newListOperand_value_loop l n v c b)"
proof (induction n arbitrary: b)
  case 0
  then show ?case by simp
next
  case (Suc n)
  show ?case
    using Suc.IH [OF append_child_wf [OF Suc.prems, of l v c None]]
    by (simp add: split_beta)
qed

lemma newListOperand_constraint_loop_wf:
  "valid_refs b \<and> unindexed b \<Longrightarrow>
   valid_refs (newListOperand_constraint_loop l n c b) \<and> unindexed (newListOperand_constraint_loop l n c b)"
proof (induction n arbitrary: b)
  case 0
  then show ?case by simp
next
  case (Suc n)
  show ?case
    using Suc.IH [OF append_child_wf [OF Suc.prems, of l None c None]]
    by (simp add: split_beta newOperand_constraint_def)
qed

lemma newListOperand_wf:
  assumes "valid_refs b \<and> unindexed b"
  shows "valid_refs (snd (newListOperand b)) \<and> unindexed (snd (newListOperand b))"
    "valid_refs (snd (newListOperand_items items b)) \<and> unindexed (snd (newListOperand_items items b))"
    "valid_refs (snd (newListOperand_value n v c b)) \<and> unindexed (snd (newListOperand_value n v c b))"
    "valid_refs (snd (newListOperand_constraint n c b)) \<and> unindexed (snd (newListOperand_constraint n c b))"
  using newOperand_private_wf [OF assms]
  by (simp_all add: newListOperand_def newListOperand_items_def newListOperand_value_def
      newListOperand_constraint_def split_beta newListOperand_items_loop_wf
      newListOperand_value_loop_wf newListOperand_constraint_loop_wf)

lemma create_wf:
  "valid_refs b \<and> unindexed b \<Longrightarrow>
   valid_refs (snd (create this name b)) \<and> unindexed (snd (create this name b))"
  by (simp add: create_def valid_refs_def unindexed_def)

lemma call_wf:
  "valid_refs b \<and> unindexed b \<Longrightarrow> \<forall>a \<in> set oprs. a < length (argArchive b) \<Longrightarrow>
   valid_refs (snd (call i oprs ms b)) \<and> unindexed (snd (call i oprs ms b))"
  by (auto simp: call_def valid_refs_def unindexed_def GCNInstrExecution_ctor_def)

section \<open>Theorems: the two builders, evaluated\<close>

lemma scenario_mov_eq:
  "scenario_mov =
     \<lparr>argArchive =
        [\<lparr>constraint = ''=r'',
          opr_value = Some \<lparr>val_id = 0, getType = IntegerType 32, getLoc = 0\<rparr>,
          idx = - 1, opr_list = [], repr = None\<rparr>,
         \<lparr>constraint = ''r'',
          opr_value = Some \<lparr>val_id = 1, getType = IntegerType 32, getLoc = 0\<rparr>,
          idx = - 1, opr_list = [], repr = None\<rparr>],
      modArchive = [],
      instrs = [\<lparr>builder = 0, instrParts = [''v_mov_b32'']\<rparr>],
      executions = [\<lparr>instr = 0, argsInOrder = [0, 1], mods = []\<rparr>],
      oprCounter = 0\<rparr>"
  by (simp add: scenario_mov_def newOperand_def GCNBuilder_init_def create_def
      call_operands_def call_def GCNInstrExecution_ctor_def Operand_ctor_def
      GCNInstrBase_def o_suffix_def)

lemma scenario_list_eq:
  "scenario_list =
     \<lparr>argArchive =
        [\<lparr>constraint = [], opr_value = None, idx = - 1, opr_list = [1, 2, 3], repr = None\<rparr>,
         \<lparr>constraint = ''r'', opr_value = None, idx = - 1, opr_list = [], repr = None\<rparr>,
         \<lparr>constraint = ''r'', opr_value = None, idx = - 1, opr_list = [], repr = None\<rparr>,
         \<lparr>constraint = ''r'', opr_value = None, idx = - 1, opr_list = [], repr = None\<rparr>,
         \<lparr>constraint = ''=v'',
          opr_value = Some \<lparr>val_id = 7, getType = IntegerType 32, getLoc = 0\<rparr>,
          idx = - 1, opr_list = [], repr = None\<rparr>,
         \<lparr>constraint = [], opr_value = None, idx = - 1, opr_list = [],
          repr = Some (\<lambda>_. ''42'')\<rparr>],
      modArchive = [],
      instrs = [\<lparr>builder = 0, instrParts = [''v_perm'']\<rparr>],
      executions = [\<lparr>instr = 0, argsInOrder = [4, 0, 5, 4], mods = []\<rparr>,
                    \<lparr>instr = 0, argsInOrder = [0, 4], mods = []\<rparr>],
      oprCounter = 0\<rparr>"
  by (simp add: scenario_list_def newListOperand_constraint_def newOperand_private_def
      newOperand_constraint_def newOperand_def newConstantOperand_int_def newConstantOperand_def
      GCNBuilder_init_def create_def numeral_3_eq_3 at_operand_def listAppend_def
      call_operands_def call_def GCNInstrExecution_ctor_def Operand_ctor_def Operand_default_def
      GCNInstrBase_def o_suffix_def to_string_def digit_char_def)

lemma scenario_mov_constraints: "fst (getConstraints scenario_mov) = ''=r,r''"
  by (simp add: scenario_mov_eq getConstraints_def getAllArgs_def assignIndices_def
      referenced_def getArgList_def isList_def assignIndex_def Let_def)

lemma scenario_mov_text: "fst (GCNBuilder_dump 2 scenario_mov) = Some [''v_mov_b32 %0, %1'']"
  by (simp add: scenario_mov_eq GCNBuilder_dump_def assignIndices_def referenced_def
      getArgList_def isList_def assignIndex_def Let_def GCNInstrExecution_dump_def
      numeral_2_eq_2 to_string_def digit_char_def)

lemma scenario_list_wf: "valid_refs scenario_list \<and> unindexed scenario_list"
  by (simp add: scenario_list_eq valid_refs_def unindexed_def)

lemma scenario_list_order: "spec_index_order scenario_list = [4, 1, 2, 3]"
  by (simp add: scenario_list_eq spec_index_order_def spec_references_def isList_def)

lemma scenario_list_assigned:
  "map idx (argArchive (assignIndices scenario_list)) = [- 1, 1, 2, 3, 0, - 1]"
  by (simp add: scenario_list_eq assignIndices_def referenced_def
      getArgList_def isList_def assignIndex_def Let_def)

lemma scenario_list_constraints: "fst (getConstraints scenario_list) = ''=v,r,r,r''"
  by (simp add: scenario_list_eq getConstraints_def getAllArgs_def assignIndices_def
      referenced_def getArgList_def isList_def assignIndex_def Let_def)

lemma scenario_list_text:
  "fst (GCNBuilder_dump 2 scenario_list) =
     Some [''v_perm %0, %1, %2, %3, 42, %0'', ''v_perm %1, %2, %3, %0'']"
  by (simp add: scenario_list_eq GCNBuilder_dump_def assignIndices_def referenced_def
      getArgList_def isList_def assignIndex_def Let_def GCNInstrExecution_dump_def
      numeral_2_eq_2 to_string_def digit_char_def)

section \<open>Theorems: the format synthesizer\<close>

lemma distinct_first_refs: "distinct seen \<Longrightarrow> distinct (first_refs seen rs)"
  by (induction rs arbitrary: seen) auto

lemma append_child_keeps:
  assumes "l < length (argArchive b)"
  shows "constraint (argArchive (at_operand l (listAppend a) (snd (newOperand v c f b))) ! l) =
           constraint (argArchive b ! l)"
    and "opr_value (argArchive (at_operand l (listAppend a) (snd (newOperand v c f b))) ! l) =
           opr_value (argArchive b ! l)"
    and "l < length (argArchive (at_operand l (listAppend a) (snd (newOperand v c f b))))"
  using assms by (simp_all add: at_operand_def newOperand_def listAppend_def nth_append)

lemma items_loop_keeps:
  "l < length (argArchive b) \<Longrightarrow>
   constraint (argArchive (newListOperand_items_loop l items b) ! l) = constraint (argArchive b ! l) \<and>
   opr_value (argArchive (newListOperand_items_loop l items b) ! l) = opr_value (argArchive b ! l)"
proof (induction items arbitrary: b)
  case Nil
  then show ?case by simp
next
  case (Cons item items)
  note k = append_child_keeps [OF Cons.prems, of "fst (newOperand (fst item) (snd item) None b)"
      "fst item" "snd item" None]
  show ?case using Cons.IH [OF k(3)] k(1,2) by (simp add: split_beta)
qed

lemma value_loop_keeps:
  "l < length (argArchive b) \<Longrightarrow>
   constraint (argArchive (newListOperand_value_loop l n v c b) ! l) = constraint (argArchive b ! l) \<and>
   opr_value (argArchive (newListOperand_value_loop l n v c b) ! l) = opr_value (argArchive b ! l)"
proof (induction n arbitrary: b)
  case 0
  then show ?case by simp
next
  case (Suc n)
  note k = append_child_keeps [OF Suc.prems, of "fst (newOperand v c None b)" v c None]
  show ?case using Suc.IH [OF k(3)] k(1,2) by (simp add: split_beta)
qed

lemma constraint_loop_keeps:
  "l < length (argArchive b) \<Longrightarrow>
   constraint (argArchive (newListOperand_constraint_loop l n c b) ! l) = constraint (argArchive b ! l) \<and>
   opr_value (argArchive (newListOperand_constraint_loop l n c b) ! l) = opr_value (argArchive b ! l)"
proof (induction n arbitrary: b)
  case 0
  then show ?case by simp
next
  case (Suc n)
  note k = append_child_keeps [OF Suc.prems, of "fst (newOperand None c None b)" None c None]
  show ?case using Suc.IH [OF k(3)] k(1,2) by (simp add: split_beta newOperand_constraint_def)
qed

lemma newOperand_private_new:
  "fst (newOperand_private b) < length (argArchive (snd (newOperand_private b)))"
  "constraint (argArchive (snd (newOperand_private b)) ! fst (newOperand_private b)) = []"
  "opr_value (argArchive (snd (newOperand_private b)) ! fst (newOperand_private b)) = None"
  by (simp_all add: newOperand_private_def Operand_default_def)

lemma newListOperand_is_list:
  "isList (argArchive (snd (newListOperand b)) ! fst (newListOperand b))"
  "isList (argArchive (snd (newListOperand_items items b)) ! fst (newListOperand_items items b))"
  "isList (argArchive (snd (newListOperand_value n v c b)) ! fst (newListOperand_value n v c b))"
  "isList (argArchive (snd (newListOperand_constraint n c b)) ! fst (newListOperand_constraint n c b))"
  using newOperand_private_new [of b]
    items_loop_keeps [of "fst (newOperand_private b)" "snd (newOperand_private b)" items]
    value_loop_keeps [of "fst (newOperand_private b)" "snd (newOperand_private b)" n v c]
    constraint_loop_keeps [of "fst (newOperand_private b)" "snd (newOperand_private b)" n c]
  by (simp_all add: isList_def newListOperand_def newListOperand_items_def
      newListOperand_value_def newListOperand_constraint_def split_beta)

lemma newOperand_is_list:
  "isList (argArchive (snd (newOperand v c f b)) ! fst (newOperand v c f b)) = (v = None \<and> c = [])"
  by (simp add: newOperand_def isList_def Operand_ctor_def)

lemma newConstantOperand_is_list:
  "isList (argArchive (snd (newConstantOperand v b)) ! fst (newConstantOperand v b))"
  by (simp add: newConstantOperand_def isList_def Operand_default_def)

text \<open>
  Claim C3.  For a builder as the creation routines and any Invocations leave
  it (every reference valid, no index assigned yet), the walk gives the
  \<open>k\<close>-th distinct referenced non-list operand, counted from 0 in
  first-reference order with every list operand replaced by its children in
  child order, the index \<open>k\<close>; an operand that is a list keeps \<open>-1\<close>;
  referring again to an operand that has an index, in any further walk,
  leaves the index as it is, and a second walk changes nothing.
\<close>

theorem index_assignment_first_reference_order:
  assumes "valid_refs b" and "unindexed b"
  shows "(\<forall>k < length (spec_index_order b).
            idx (argArchive (assignIndices b) ! (spec_index_order b ! k)) = int k) \<and>
         distinct (spec_index_order b) \<and>
         set (spec_index_order b) = set (spec_references b) \<and>
         spec_index_order b = rev (remdups (rev (spec_references b))) \<and>
         (\<forall>h < length (argArchive b).
            isList (argArchive b ! h) \<longrightarrow> idx (argArchive (assignIndices b) ! h) = - 1) \<and>
         (\<forall>h rs. idx (argArchive (assignIndices b) ! h) \<noteq> - 1 \<longrightarrow>
            idx (argArchive (fold assignIndex rs (assignIndices b)) ! h) =
            idx (argArchive (assignIndices b) ! h)) \<and>
         assignIndices (assignIndices b) = assignIndices b"
proof -
  have inv: "indexed_by (assignIndices b) (spec_index_order b)"
    by (rule assignIndices_indexed_by [OF assms])
  have len: "length (argArchive (assignIndices b)) = length (argArchive b)"
    by (simp add: assignIndices_def fold_assignIndex_frame)
  have lst: "isList (argArchive (assignIndices b) ! h) = isList (argArchive b ! h)" for h
    by (simp add: assignIndices_def fold_assignIndex_isList)
  have 1: "\<forall>k < length (spec_index_order b).
            idx (argArchive (assignIndices b) ! (spec_index_order b ! k)) = int k"
    using inv by (simp add: indexed_by_def)
  have 2: "distinct (spec_index_order b)"
    using inv by (simp add: indexed_by_def)
  have 3: "set (spec_index_order b) = set (spec_references b)"
    by (simp add: spec_index_order_def set_first_refs)
  have 4: "spec_index_order b = rev (remdups (rev (spec_references b)))"
    by (simp add: spec_index_order_def first_refs_conv)
  have 5: "idx (argArchive (assignIndices b) ! h) = - 1"
    if "h < length (argArchive b)" "isList (argArchive b ! h)" for h
  proof -
    have "h \<notin> set (spec_index_order b)"
      using inv that(2) lst by (auto simp: indexed_by_def)
    with inv that(1) len show ?thesis by (simp add: indexed_by_def)
  qed
  have 6: "idx (argArchive (fold assignIndex rs (assignIndices b)) ! h) =
            idx (argArchive (assignIndices b) ! h)"
    if "idx (argArchive (assignIndices b) ! h) \<noteq> - 1" for h rs
    using that by (rule fold_assignIndex_keeps_assigned)
  have 7: "assignIndices (assignIndices b) = assignIndices b"
    by (rule assignIndices_idempotent [OF assms])
  from 1 2 3 4 5 6 7 show ?thesis by blast
qed

theorem index_assignment_first_reference_order_witness:
  "valid_refs scenario_list \<and> unindexed scenario_list \<and>
   spec_index_order scenario_list = [4, 1, 2, 3] \<and>
   idx (argArchive (assignIndices scenario_list) ! 4) = 0 \<and>
   idx (argArchive (assignIndices scenario_list) ! 1) = 1 \<and>
   idx (argArchive (assignIndices scenario_list) ! 2) = 2 \<and>
   idx (argArchive (assignIndices scenario_list) ! 3) = 3 \<and>
   isList (argArchive scenario_list ! 0) \<and>
   idx (argArchive (assignIndices scenario_list) ! 0) = - 1 \<and>
   isList (argArchive scenario_list ! 5) \<and>
   idx (argArchive (assignIndices scenario_list) ! 5) = - 1 \<and>
   assignIndices (assignIndices scenario_list) = assignIndices scenario_list"
proof -
  have wf: "valid_refs scenario_list" "unindexed scenario_list"
    using scenario_list_wf by simp_all
  note t = index_assignment_first_reference_order [OF wf]
  have o: "spec_index_order scenario_list = [4, 1, 2, 3]" by (rule scenario_list_order)
  from t have k: "\<forall>k < length (spec_index_order scenario_list).
      idx (argArchive (assignIndices scenario_list) ! (spec_index_order scenario_list ! k)) = int k"
    by blast
  have i0: "idx (argArchive (assignIndices scenario_list) ! 4) = 0" using k [rule_format, of 0] o by simp
  have i1: "idx (argArchive (assignIndices scenario_list) ! 1) = 1" using k [rule_format, of 1] o by simp
  have i2: "idx (argArchive (assignIndices scenario_list) ! 2) = 2" using k [rule_format, of 2] o by simp
  have i3: "idx (argArchive (assignIndices scenario_list) ! 3) = 3" using k [rule_format, of 3] o by simp
  have l0: "isList (argArchive scenario_list ! 0)" "isList (argArchive scenario_list ! 5)"
    by (simp_all add: scenario_list_eq isList_def)
  have n: "length (argArchive scenario_list) = 6" by (simp add: scenario_list_eq)
  from t have li: "\<forall>h < length (argArchive scenario_list).
      isList (argArchive scenario_list ! h) \<longrightarrow> idx (argArchive (assignIndices scenario_list) ! h) = - 1"
    by blast
  have m0: "idx (argArchive (assignIndices scenario_list) ! 0) = - 1" using li [rule_format, of 0] l0 n by simp
  have m5: "idx (argArchive (assignIndices scenario_list) ! 5) = - 1" using li [rule_format, of 5] l0 n by simp
  from t have idem: "assignIndices (assignIndices scenario_list) = assignIndices scenario_list" by blast
  from wf o i0 i1 i2 i3 l0 m0 m5 idem show ?thesis by simp
qed

text \<open>
  Claim C4.  For such a builder \<open>getConstraints\<close> is the comma-join of the
  constraints of the referenced non-list operands in index order, which is
  their first-reference order with every list operand replaced by its
  children; position \<open>k\<close> of the string belongs to the operand of index \<open>k\<close>.
  The scenario: two bound operands \<open>=r\<close> and \<open>r\<close> passed to \<open>v_mov_b32\<close>
  give the constraint string \<open>=r,r\<close> and the text \<open>v_mov_b32 %0, %1\<close>.
\<close>

theorem getConstraints_comma_join:
  assumes "valid_refs b" and "unindexed b"
  shows "fst (getAllArgs b) = spec_index_order b \<and>
         fst (getConstraints b) =
           strJoin (map (\<lambda>h. constraint (argArchive b ! h)) (spec_index_order b)) '','' \<and>
         (\<forall>k < length (spec_index_order b).
            idx (argArchive (snd (getConstraints b)) ! (spec_index_order b ! k)) = int k) \<and>
         fst (getConstraints scenario_mov) = ''=r,r'' \<and>
         fst (GCNBuilder_dump 2 scenario_mov) = Some [''v_mov_b32 %0, %1'']"
proof -
  have inv: "indexed_by (assignIndices b) (spec_index_order b)"
    by (rule assignIndices_indexed_by [OF assms])
  have args: "fst (getAllArgs b) = spec_index_order b"
    by (rule getAllArgs_spec [OF assms])
  have snd_args: "snd (getAllArgs b) = assignIndices b"
    by (simp add: getAllArgs_def Let_def)
  have c: "constraint (argArchive (assignIndices b) ! h) = constraint (argArchive b ! h)" for h
    by (simp add: assignIndices_def fold_assignIndex_fields)
  have 2: "fst (getConstraints b) =
           strJoin (map (\<lambda>h. constraint (argArchive b ! h)) (spec_index_order b)) '',''"
    using args snd_args by (simp add: getConstraints_def split_beta c)
  have "snd (getConstraints b) = assignIndices b"
    using snd_args by (simp add: getConstraints_def split_beta)
  then have 3: "\<forall>k < length (spec_index_order b).
            idx (argArchive (snd (getConstraints b)) ! (spec_index_order b ! k)) = int k"
    using inv by (simp add: indexed_by_def)
  from args 2 3 scenario_mov_constraints scenario_mov_text show ?thesis by blast
qed

theorem getConstraints_comma_join_witness:
  "valid_refs scenario_list \<and> unindexed scenario_list \<and>
   spec_index_order scenario_list = [4, 1, 2, 3] \<and>
   fst (getAllArgs scenario_list) = [4, 1, 2, 3] \<and>
   fst (getConstraints scenario_list) = ''=v,r,r,r'' \<and>
   fst (GCNBuilder_dump 2 scenario_list) =
     Some [''v_perm %0, %1, %2, %3, 42, %0'', ''v_perm %1, %2, %3, %0'']"
proof -
  have wf: "valid_refs scenario_list" "unindexed scenario_list"
    using scenario_list_wf by simp_all
  note t = getConstraints_comma_join [OF wf]
  have o: "spec_index_order scenario_list = [4, 1, 2, 3]" by (rule scenario_list_order)
  from t o have a: "fst (getAllArgs scenario_list) = [4, 1, 2, 3]" by simp
  from t have "fst (getConstraints scenario_list) =
      strJoin (map (\<lambda>h. constraint (argArchive scenario_list ! h)) (spec_index_order scenario_list)) '',''"
    by blast
  then have c: "fst (getConstraints scenario_list) = ''=v,r,r,r''"
    by (simp add: o) (simp add: scenario_list_eq)
  from wf o a c scenario_list_text show ?thesis by simp
qed

text \<open>
  Against claim C8 as stated: the operand that \<open>newConstantOperand\<close> makes is
  no list container (it has no child and renders as its literal), and
  \<open>isList\<close> holds of it.
\<close>

theorem constant_operand_isList_counterexample:
  "isList (argArchive (snd (newConstantOperand ''42'' GCNBuilder_init))
     ! fst (newConstantOperand ''42'' GCNBuilder_init)) \<and>
   opr_list (argArchive (snd (newConstantOperand ''42'' GCNBuilder_init))
     ! fst (newConstantOperand ''42'' GCNBuilder_init)) = [] \<and>
   map_option (\<lambda>f. f 0) (repr (argArchive (snd (newConstantOperand ''42'' GCNBuilder_init))
     ! fst (newConstantOperand ''42'' GCNBuilder_init))) = Some ''42''"
  by (simp add: newConstantOperand_def GCNBuilder_init_def isList_def Operand_default_def)

text \<open>
  Claim C8, amended.  \<open>isList\<close> holds exactly of the operands with neither a
  bound value nor a constraint string.  Every operand returned by a
  \<open>newListOperand\<close> routine is one; an operand made by \<open>newOperand\<close> is one only
  when its value is null and its constraint empty; and the constant operands,
  made with no value and no constraint, are among them too.
\<close>

theorem isList_of_created_operands:
  "isList x = (opr_value x = None \<and> constraint x = []) \<and>
   isList (argArchive (snd (newListOperand b)) ! fst (newListOperand b)) \<and>
   isList (argArchive (snd (newListOperand_items items b)) ! fst (newListOperand_items items b)) \<and>
   isList (argArchive (snd (newListOperand_value n v c b)) ! fst (newListOperand_value n v c b)) \<and>
   isList (argArchive (snd (newListOperand_constraint n c b)) ! fst (newListOperand_constraint n c b)) \<and>
   isList (argArchive (snd (newOperand v c f b)) ! fst (newOperand v c f b)) = (v = None \<and> c = []) \<and>
   isList (argArchive (snd (newOperand_constraint c b)) ! fst (newOperand_constraint c b)) = (c = []) \<and>
   isList (argArchive (snd (newConstantOperand s b)) ! fst (newConstantOperand s b)) \<and>
   isList (argArchive (snd (newConstantOperand_int i b)) ! fst (newConstantOperand_int i b))"
  by (simp add: newListOperand_is_list newOperand_is_list newConstantOperand_is_list
      newOperand_constraint_def newConstantOperand_int_def) (simp add: isList_def)

theorem isList_of_created_operands_witness:
  "isList (argArchive (snd (newListOperand_constraint 3 ''r'' GCNBuilder_init))
     ! fst (newListOperand_constraint 3 ''r'' GCNBuilder_init)) \<and>
   \<not> isList (argArchive (snd (newOperand None ''=r'' None GCNBuilder_init))
     ! fst (newOperand None ''=r'' None GCNBuilder_init)) \<and>
   isList (argArchive (snd (newConstantOperand_int 42 GCNBuilder_init))
     ! fst (newConstantOperand_int 42 GCNBuilder_init))"
  using isList_of_created_operands [of undefined GCNBuilder_init "[]" 3 None "''r''" None "''x''" 42]
    isList_of_created_operands [of undefined GCNBuilder_init "[]" 3 None "''=r''" None "''x''" 42]
  by simp

section \<open>Theorems: Ops.cpp\<close>

lemma getZeroAttr_is_zero: "getZeroAttr t = Some z \<Longrightarrow> is_zero z"
  by (induction t arbitrary: z) (auto split: option.splits)

lemma getValues_splat:
  "getValues (DenseElementsAttr (RankedTensorType shape e) [a]) = replicate (nat (prod_list shape)) a"
  by (simp add: getValues_def getNumElements_def)

text \<open>
  Against claim C10 as stated: with a \<open>ptr\<close> that is a pointer and no tensor,
  neither build routine makes a mask: the \<^verbatim>\<open>dyn_cast<TensorType>\<close> gives the null
  type and the routine calls a member of it.  The same happens in
  \<open>LoadOp::build\<close> for a tensor of pointers to pointers, whose pointee type has
  no zero attribute.
\<close>

theorem default_mask_needs_tensor_counterexample:
  "StoreOp_build \<lparr>ops = [], next_id = 2\<rparr> \<lparr>operands = [], types = []\<rparr>
     \<lparr>val_id = 0, getType = PointerType (FloatType 32), getLoc = 5\<rparr>
     \<lparr>val_id = 1, getType = FloatType 32, getLoc = 6\<rparr> = Inl NullPointerDereference \<and>
   LoadOp_build \<lparr>ops = [], next_id = 1\<rparr> \<lparr>operands = [], types = []\<rparr>
     \<lparr>val_id = 0, getType = PointerType (FloatType 32), getLoc = 5\<rparr> =
     Inl NullPointerDereference \<and>
   LoadOp_build \<lparr>ops = [], next_id = 1\<rparr> \<lparr>operands = [], types = []\<rparr>
     \<lparr>val_id = 0, getType = RankedTensorType [2, 3] (PointerType (PointerType (FloatType 32))),
      getLoc = 5\<rparr> = Inl NullPointerDereference"
  by (simp add: StoreOp_build_def LoadOp_build_def TensorType_getShape_def
      TensorType_getElementType_def PointerType_getPointeeType_def create_ConstantOp_def
      DenseIntElementsAttr_get_def DenseElementsAttr_get_def Let_def)

text \<open>
  Claim C10, amended.  When \<open>ptr\<close> is a ranked tensor, the two-argument
  \<open>StoreOp::build\<close> appends \<open>ptr\<close>, \<open>value\<close> and a new mask: the result of an
  \<open>arith.constant\<close> of type tensor of \<open>i1\<close> of the shape of \<open>ptr\<close>, every
  element true.  When \<open>ptr\<close> is a ranked tensor of pointers to a type that has
  a zero attribute, \<open>LoadOp::build\<close> appends \<open>ptr\<close>, the same mask and \<open>other\<close>,
  a constant of the result type with every element the zero of the pointee
  type, and sets the single result type to the ranked tensor of the pointee
  type with the shape of \<open>ptr\<close>.
\<close>

theorem default_mask_and_other:
  "(getType ptr = RankedTensorType shape e \<longrightarrow>
      (let mask' = \<lparr>val_id = next_id bld, getType = RankedTensorType shape (IntegerType 1),
                     getLoc = getLoc ptr\<rparr>;
           trues = DenseElementsAttr (RankedTensorType shape (IntegerType 1))
                     [IntegerAttr (IntegerType 1) 1]
       in StoreOp_build bld st ptr v =
            Inr (bld\<lparr>ops := ops bld @
                          [\<lparr>op_name = ''arith.constant'', op_result = mask', op_value = trues\<rparr>],
                     next_id := next_id bld + 1\<rparr>,
                 st\<lparr>operands := operands st @ [ptr, v, mask']\<rparr>) \<and>
          getValues trues = replicate (nat (prod_list shape)) (IntegerAttr (IntegerType 1) 1))) \<and>
   (getType ptr = RankedTensorType shape (PointerType elementType) \<and>
    getZeroAttr elementType = Some z \<longrightarrow>
      (let mask' = \<lparr>val_id = next_id bld, getType = RankedTensorType shape (IntegerType 1),
                     getLoc = getLoc ptr\<rparr>;
           trues = DenseElementsAttr (RankedTensorType shape (IntegerType 1))
                     [IntegerAttr (IntegerType 1) 1];
           other = \<lparr>val_id = next_id bld + 1, getType = RankedTensorType shape elementType,
                     getLoc = getLoc ptr\<rparr>;
           zeros = DenseElementsAttr (RankedTensorType shape elementType) [z]
       in LoadOp_build bld st ptr =
            Inr (bld\<lparr>ops := ops bld @
                          [\<lparr>op_name = ''arith.constant'', op_result = mask', op_value = trues\<rparr>,
                           \<lparr>op_name = ''arith.constant'', op_result = other, op_value = zeros\<rparr>],
                     next_id := next_id bld + 2\<rparr>,
                 st\<lparr>operands := operands st @ [ptr, mask', other],
                    types := types st @ [RankedTensorType shape elementType]\<rparr>) \<and>
          getValues trues = replicate (nat (prod_list shape)) (IntegerAttr (IntegerType 1) 1) \<and>
          getValues zeros = replicate (nat (prod_list shape)) z \<and> is_zero z))"
  by (auto simp: StoreOp_build_def LoadOp_build_def TensorType_getShape_def
      TensorType_getElementType_def PointerType_getPointeeType_def create_ConstantOp_def
      DenseIntElementsAttr_get_def DenseElementsAttr_get_def addOperands_def addTypes_def
      Let_def getValues_splat getZeroAttr_is_zero)

theorem default_mask_and_other_witness:
  "getType demo_ptr = RankedTensorType [2, 3] (PointerType (FloatType 32)) \<and>
   getZeroAttr (FloatType 32) = Some (FloatAttr (FloatType 32) 0) \<and>
   map_sum id (operands \<circ> snd)
     (StoreOp_build \<lparr>ops = [], next_id = 2\<rparr> \<lparr>operands = [], types = []\<rparr> demo_ptr
        \<lparr>val_id = 1, getType = RankedTensorType [2, 3] (FloatType 32), getLoc = 6\<rparr>) =
     Inr [demo_ptr,
          \<lparr>val_id = 1, getType = RankedTensorType [2, 3] (FloatType 32), getLoc = 6\<rparr>,
          \<lparr>val_id = 2, getType = RankedTensorType [2, 3] (IntegerType 1), getLoc = 5\<rparr>] \<and>
   LoadOp_build \<lparr>ops = [], next_id = 1\<rparr> \<lparr>operands = [], types = []\<rparr> demo_ptr =
     Inr (\<lparr>ops =
             [\<lparr>op_name = ''arith.constant'',
               op_result = \<lparr>val_id = 1, getType = RankedTensorType [2, 3] (IntegerType 1), getLoc = 5\<rparr>,
               op_value = DenseElementsAttr (RankedTensorType [2, 3] (IntegerType 1))
                            [IntegerAttr (IntegerType 1) 1]\<rparr>,
              \<lparr>op_name = ''arith.constant'',
               op_result = \<lparr>val_id = 2, getType = RankedTensorType [2, 3] (FloatType 32), getLoc = 5\<rparr>,
               op_value = DenseElementsAttr (RankedTensorType [2, 3] (FloatType 32))
                            [FloatAttr (FloatType 32) 0]\<rparr>],
           next_id = 3\<rparr>,
          \<lparr>operands =
             [demo_ptr,
              \<lparr>val_id = 1, getType = RankedTensorType [2, 3] (IntegerType 1), getLoc = 5\<rparr>,
              \<lparr>val_id = 2, getType = RankedTensorType [2, 3] (FloatType 32), getLoc = 5\<rparr>],
           types = [RankedTensorType [2, 3] (FloatType 32)]\<rparr>) \<and>
   getValues (DenseElementsAttr (RankedTensorType [2, 3] (IntegerType 1)) [IntegerAttr (IntegerType 1) 1]) =
     replicate 6 (IntegerAttr (IntegerType 1) 1) \<and>
   getValues (DenseElementsAttr (RankedTensorType [2, 3] (FloatType 32)) [FloatAttr (FloatType 32) 0]) =
     replicate 6 (FloatAttr (FloatType 32) 0)"
proof -
  have t: "getType demo_ptr = RankedTensorType [2, 3] (PointerType (FloatType 32))"
    by (simp add: demo_ptr_def)
  have z: "getZeroAttr (FloatType 32) = Some (FloatAttr (FloatType 32) 0)" by simp
  have l: "getLoc demo_ptr = 5" by (simp add: demo_ptr_def)
  note s = default_mask_and_other [of demo_ptr "[2, 3]" "PointerType (FloatType 32)"
      "\<lparr>ops = [], next_id = 2\<rparr>" "\<lparr>operands = [], types = []\<rparr>"
      "\<lparr>val_id = 1, getType = RankedTensorType [2, 3] (FloatType 32), getLoc = 6\<rparr>"
      "FloatType 32" "FloatAttr (FloatType 32) 0"]
  note ld = default_mask_and_other [of demo_ptr "[2, 3]" "PointerType (FloatType 32)"
      "\<lparr>ops = [], next_id = 1\<rparr>" "\<lparr>operands = [], types = []\<rparr>" undefined
      "FloatType 32" "FloatAttr (FloatType 32) 0"]
  show ?thesis using s ld t z l by (simp add: Let_def)
qed

text \<open>
  Where \<open>ptr\<close> is no tensor the \<^verbatim>\<open>dyn_cast\<close> gives the null type and the build
  routine calls a member of it.
\<close>

lemma store_scalar_ptr:
  "StoreOp_build bld st \<lparr>val_id = 0, getType = PointerType (FloatType 32), getLoc = 0\<rparr> v
     = Inl NullPointerDereference"
  by (simp add: StoreOp_build_def TensorType_getShape_def)

section \<open>Theorems: the code-generation pipeline\<close>

lemma deref_store: "deref (store a m w) b = (if b = a \<and> a < length (heap w) then Some m else deref w b)"
  by (auto simp: deref_def store_def)

lemma deref_Some_less: "deref w a = Some m \<Longrightarrow> a < length (heap w)"
  by (simp add: deref_def split: if_splits)

lemma store_fields:
  "registered (store a m w) = registered w" "cout (store a m w) = cout w"
  "files (store a m w) = files w" "tmpnam_calls (store a m w) = tmpnam_calls w"
  "length (heap (store a m w)) = length (heap w)"
  by (simp_all add: store_def)

lemma deref_upd:
  "deref (w\<lparr>cout := c\<rparr>) a = deref w a" "deref (w\<lparr>files := fs\<rparr>) a = deref w a"
  "deref (w\<lparr>tmpnam_calls := n\<rparr>) a = deref w a" "deref (w\<lparr>registered := r\<rparr>) a = deref w a"
  by (simp_all add: deref_def)

lemma initialize_module_Inr:
  assumes "initialize_module env w module triple proc features = Inr (machine, w')"
  shows "\<exists>m m3. deref w module = Some m \<and> verify_ok env m \<and> w' = store module m3 w \<and>
           (\<exists>tgt. lookupTarget env (registered w) triple = Inr tgt)"
  using assms
  by (auto simp: initialize_module_def Let_def split: option.splits if_splits sum.splits)

lemma initialize_module_total:
  assumes "deref w module = Some m" "verify_ok env m"
    "lookupTarget env (registered w) triple = Inr tgt"
  shows "\<exists>machine m3. initialize_module env w module triple proc features =
           Inr (machine, store module m3 w)"
  using assms by (simp add: initialize_module_def Let_def) blast

lemma generate_amdgcn_assembly_Inr:
  assumes "generate_amdgcn_assembly env w module triple proc features = Inr (amdgcn, w')"
  shows "(\<forall>a. a \<noteq> module \<longrightarrow> deref w' a = deref w a) \<and> length (heap w') = length (heap w) \<and>
         registered w' = registered w \<and> files w' = files w \<and> tmpnam_calls w' = tmpnam_calls w"
proof -
  from assms obtain machine w1 where
    i: "initialize_module env w module triple proc features = Inr (machine, w1)"
    by (auto simp: generate_amdgcn_assembly_def split: sum.splits)
  from initialize_module_Inr [OF i] obtain m3 where w1: "w1 = store module m3 w" by blast
  from assms i w1 show ?thesis
    by (auto simp: generate_amdgcn_assembly_def Let_def deref_store store_fields deref_upd
        split: option.splits prod.splits if_splits)
qed

lemma generate_amdgcn_assembly_total:
  assumes "deref w module = Some m" "verify_ok env m"
    "lookupTarget env (registered w) triple = Inr tgt"
  shows "\<exists>amdgcn w'. generate_amdgcn_assembly env w module triple proc features = Inr (amdgcn, w')"
proof -
  from initialize_module_total [OF assms] obtain machine m3 where
    "initialize_module env w module triple proc features = Inr (machine, store module m3 w)"
    by blast
  then show ?thesis using deref_Some_less [OF assms(1)]
    by (auto simp: generate_amdgcn_assembly_def Let_def deref_store split: prod.splits)
qed

lemma link_hsaco_result:
  assumes "link_hsaco env k p w = (hp, w')"
  shows "hp = k @ ''.hsaco'' \<and> heap w' = heap w \<and> registered w' = registered w \<and>
         tmpnam_calls w' = tmpnam_calls w"
  using assms by (auto simp: link_hsaco_def Let_def split: prod.splits if_splits)

lemma generate_hsaco_Inr:
  assumes "generate_hsaco env w module triple proc features = Inr (hsaco_path, w')"
  shows "(\<forall>a. a \<noteq> module \<longrightarrow> deref w' a = deref w a) \<and> length (heap w') = length (heap w) \<and>
         registered w' = registered w \<and>
         (\<exists>m. deref w module = Some m \<and>
            hsaco_path = tmpnam env (tmpnam_calls w) @ ''_'' @ moduleIdentifier m @ ''.hsaco'')"
proof -
  from assms obtain machine w1 where
    i: "initialize_module env w module triple proc features = Inr (machine, w1)"
    by (auto simp: generate_hsaco_def split: sum.splits)
  from initialize_module_Inr [OF i] obtain m m3 where
    w1: "w1 = store module m3 w" and m: "deref w module = Some m" by blast
  have id: "moduleIdentifier m3 = moduleIdentifier m"
    using i m w1 deref_Some_less [OF m]
    by (auto simp: initialize_module_def Let_def store_def split: if_splits sum.splits
        dest!: arg_cong [where f = "\<lambda>w. heap w ! module"])
  from assms i w1 m deref_Some_less [OF m] obtain k p w5 where
    l: "link_hsaco env k p w5 = (hsaco_path, w')"
    and k: "k = tmpnam env (tmpnam_calls w) @ ''_'' @ moduleIdentifier m3"
    and h: "\<forall>a. a \<noteq> module \<longrightarrow> deref w5 a = deref w a" "length (heap w5) = length (heap w)"
      "registered w5 = registered w"
    by (auto simp: generate_hsaco_def Let_def deref_store store_fields deref_upd
        split: option.splits prod.splits if_splits)
  from link_hsaco_result [OF l] have r: "hsaco_path = k @ ''.hsaco''" "heap w' = heap w5"
    "registered w' = registered w5" by simp_all
  have "deref w' a = deref w5 a" for a using r(2) by (simp add: deref_def)
  with h r k id m show ?thesis by simp
qed


lemma generate_hsaco_total:
  assumes "deref w module = Some m" "verify_ok env m"
    "lookupTarget env (registered w) triple = Inr tgt"
  shows "\<exists>hsaco_path w'. generate_hsaco env w module triple proc features = Inr (hsaco_path, w')"
proof -
  from initialize_module_total [OF assms] obtain machine m3 where
    "initialize_module env w module triple proc features = Inr (machine, store module m3 w)"
    by blast
  then show ?thesis using deref_Some_less [OF assms(1)]
    by (auto simp: generate_hsaco_def Let_def deref_store split: prod.splits)
qed

lemma CloneModule_Inr:
  assumes "deref w module = Some m"
  shows "CloneModule w module = Inr (length (heap w), w\<lparr>heap := heap w @ [Some m]\<rparr>)"
    and "length (heap w) \<noteq> module"
    and "deref (w\<lparr>heap := heap w @ [Some m]\<rparr>) module = Some m"
    and "deref (w\<lparr>heap := heap w @ [Some m]\<rparr>) (length (heap w)) = Some m"
  using assms deref_Some_less [OF assms]
  by (auto simp: CloneModule_def deref_def nth_append)

lemma example_init:
  "deref (init_llvm example_world) 0 = Some example_module"
  "registered (init_llvm example_world) =
     [''AMDGPUTarget'', ''AMDGPUTargetInfo'', ''AMDGPUTargetMC'', ''AMDGPUAsmParser'',
      ''AMDGPUAsmPrinter'']"
  by (simp_all add: init_llvm_def example_world_def deref_def)

text \<open>
  Against claim C2 as stated: with a linker that ends with exit code 1 and
  writes no output file, \<open>generate_hsaco\<close> returns the output path, the very
  value it returns when the linker ends with 0.
\<close>

theorem linker_failure_path_returned_counterexample:
  "fst (ExecuteAndWait (example_llvm 1) ''/opt/rocm/llvm/bin/ld.lld''
     [''/opt/rocm/llvm/bin/ld.lld'', ''-flavor'', ''gnu'', ''-shared'', ''-o'',
      ''/tmp/file0_kernel.hsaco'', ''/tmp/file0_kernel.o'']
     [(''/tmp/file0_kernel.o'', ''obj of ir''), (''/tmp/file0_kernel.o'', [])]) = 1 \<and>
   map_sum id fst (generate_hsaco (example_llvm 1) (init_llvm example_world) 0
     ''amdgcn-amd-amdhsa'' ''gfx90a'' ''+sramecc,-xnack'') = Inr ''/tmp/file0_kernel.hsaco'' \<and>
   map_sum id (\<lambda>r. map_of (files (snd r)) ''/tmp/file0_kernel.hsaco'')
     (generate_hsaco (example_llvm 1) (init_llvm example_world) 0
       ''amdgcn-amd-amdhsa'' ''gfx90a'' ''+sramecc,-xnack'') = Inr None \<and>
   map_sum id fst (generate_hsaco (example_llvm 0) (init_llvm example_world) 0
     ''amdgcn-amd-amdhsa'' ''gfx90a'' ''+sramecc,-xnack'') = Inr ''/tmp/file0_kernel.hsaco''"
  by (simp add: generate_hsaco_def initialize_module_def example_init example_llvm_def
      example_module_def Let_def deref_store store_def link_hsaco_def to_string_def
      digit_char_def init_llvm_def example_world_def deref_def)

text \<open>
  Claim C2, amended.  The linker step returns the output path whatever the
  exit code.  When the exit code is not 0 it writes \<open>ld.lld execute fail: \<close>,
  the captured error message and the exit code, each followed by a newline,
  to \<^verbatim>\<open>std::cout\<close>, and nothing when it is 0.  The process goes on:
  \<open>generate_hsaco\<close> returns, with the path made of the temporary name and the
  module identifier, whenever the target was resolved.
\<close>

theorem linker_failure_reported_on_cout:
  "fst (link_hsaco env kernel_name isabin_path w) = kernel_name @ ''.hsaco'' \<and>
   cout (snd (link_hsaco env kernel_name isabin_path w)) =
     cout w @
     (case ExecuteAndWait env ''/opt/rocm/llvm/bin/ld.lld''
             [''/opt/rocm/llvm/bin/ld.lld'', ''-flavor'', ''gnu'', ''-shared'', ''-o'',
              kernel_name @ ''.hsaco'', isabin_path] (files w) of
        (lld_result, error_message, files') \<Rightarrow>
          if lld_result = 0 then []
          else ''ld.lld execute fail: '' @ endl @ error_message @ endl @
               to_string lld_result @ endl) \<and>
   (deref w0 module = Some m \<and> verify_ok env m \<and>
    lookupTarget env (registered w0) triple = Inr tgt \<longrightarrow>
      (\<exists>w' k p w5.
         generate_hsaco env w0 module triple proc features =
           Inr (tmpnam env (tmpnam_calls w0) @ ''_'' @ moduleIdentifier m @ ''.hsaco'', w') \<and>
         link_hsaco env k p w5 =
           (tmpnam env (tmpnam_calls w0) @ ''_'' @ moduleIdentifier m @ ''.hsaco'', w')))"
proof -
  have 1: "fst (link_hsaco env kernel_name isabin_path w) = kernel_name @ ''.hsaco''"
    by (simp add: link_hsaco_def Let_def split: prod.splits)
  have 2: "cout (snd (link_hsaco env kernel_name isabin_path w)) =
     cout w @
     (case ExecuteAndWait env ''/opt/rocm/llvm/bin/ld.lld''
             [''/opt/rocm/llvm/bin/ld.lld'', ''-flavor'', ''gnu'', ''-shared'', ''-o'',
              kernel_name @ ''.hsaco'', isabin_path] (files w) of
        (lld_result, error_message, files') \<Rightarrow>
          if lld_result = 0 then []
          else ''ld.lld execute fail: '' @ endl @ error_message @ endl @
               to_string lld_result @ endl)"
    by (simp add: link_hsaco_def Let_def split: prod.splits)
  have 3: "\<exists>w' k p w5.
         generate_hsaco env w0 module triple proc features =
           Inr (tmpnam env (tmpnam_calls w0) @ ''_'' @ moduleIdentifier m @ ''.hsaco'', w') \<and>
         link_hsaco env k p w5 =
           (tmpnam env (tmpnam_calls w0) @ ''_'' @ moduleIdentifier m @ ''.hsaco'', w')"
    if a: "deref w0 module = Some m" "verify_ok env m"
      "lookupTarget env (registered w0) triple = Inr tgt"
  proof -
    from initialize_module_total [OF a] obtain machine m3 where
      i: "initialize_module env w0 module triple proc features = Inr (machine, store module m3 w0)"
      by blast
    have id: "moduleIdentifier m3 = moduleIdentifier m"
      using i a deref_Some_less [OF a(1)]
      by (auto simp: initialize_module_def Let_def store_def
          dest!: arg_cong [where f = "\<lambda>w. heap w ! module"])
    from generate_hsaco_total [OF a] obtain hp w' where
      g: "generate_hsaco env w0 module triple proc features = Inr (hp, w')" by blast
    from generate_hsaco_Inr [OF g] a(1) have
      hp: "hp = tmpnam env (tmpnam_calls w0) @ ''_'' @ moduleIdentifier m @ ''.hsaco''" by auto
    from g i deref_Some_less [OF a(1)] obtain k p w5 where
      "link_hsaco env k p w5 = (hp, w')"
      by (auto simp: generate_hsaco_def Let_def deref_store split: prod.splits)
    with g hp show ?thesis by blast
  qed
  from 1 2 3 show ?thesis by blast
qed

theorem linker_failure_reported_on_cout_witness:
  "deref (init_llvm example_world) 0 = Some example_module \<and>
   verify_ok (example_llvm 1) example_module \<and>
   lookupTarget (example_llvm 1) (registered (init_llvm example_world)) ''amdgcn-amd-amdhsa'' =
     Inr ''amdgcn'' \<and>
   map_sum id fst (generate_hsaco (example_llvm 1) (init_llvm example_world) 0
     ''amdgcn-amd-amdhsa'' ''gfx90a'' ''+sramecc,-xnack'') = Inr ''/tmp/file0_kernel.hsaco'' \<and>
   cout (snd (link_hsaco (example_llvm 1) ''/tmp/file0_kernel'' ''/tmp/file0_kernel.o''
     example_world)) =
     ''ld.lld execute fail: '' @ endl @ ''ld.lld: error: cannot link'' @ endl @ ''1'' @ endl"
proof -
  have d: "deref (init_llvm example_world) 0 = Some example_module" by (rule example_init)
  have v: "verify_ok (example_llvm 1) example_module" by (simp add: example_llvm_def)
  have l: "lookupTarget (example_llvm 1) (registered (init_llvm example_world))
      ''amdgcn-amd-amdhsa'' = Inr ''amdgcn''"
    by (simp add: example_llvm_def example_init)
  note t = linker_failure_reported_on_cout [of "example_llvm 1" "''/tmp/file0_kernel''"
      "''/tmp/file0_kernel.o''" example_world "init_llvm example_world" 0 example_module
      "''amdgcn-amd-amdhsa''" "''amdgcn''" "''gfx90a''" "''+sramecc,-xnack''"]
  from t d v l have "\<exists>w'. generate_hsaco (example_llvm 1) (init_llvm example_world) 0
     ''amdgcn-amd-amdhsa'' ''gfx90a'' ''+sramecc,-xnack'' =
       Inr (tmpnam (example_llvm 1) (tmpnam_calls (init_llvm example_world)) @ ''_'' @
            moduleIdentifier example_module @ ''.hsaco'', w')"
    by blast
  then have g: "map_sum id fst (generate_hsaco (example_llvm 1) (init_llvm example_world) 0
     ''amdgcn-amd-amdhsa'' ''gfx90a'' ''+sramecc,-xnack'') = Inr ''/tmp/file0_kernel.hsaco''"
    by (auto simp: example_llvm_def example_module_def init_llvm_def example_world_def
        to_string_def digit_char_def)
  from t have "cout (snd (link_hsaco (example_llvm 1) ''/tmp/file0_kernel'' ''/tmp/file0_kernel.o''
     example_world)) =
     cout example_world @
     (case ExecuteAndWait (example_llvm 1) ''/opt/rocm/llvm/bin/ld.lld''
             [''/opt/rocm/llvm/bin/ld.lld'', ''-flavor'', ''gnu'', ''-shared'', ''-o'',
              ''/tmp/file0_kernel'' @ ''.hsaco'', ''/tmp/file0_kernel.o''] (files example_world) of
        (lld_result, error_message, files') \<Rightarrow>
          if lld_result = 0 then []
          else ''ld.lld execute fail: '' @ endl @ error_message @ endl @
               to_string lld_result @ endl)"
    by blast
  then have c: "cout (snd (link_hsaco (example_llvm 1) ''/tmp/file0_kernel'' ''/tmp/file0_kernel.o''
     example_world)) =
     ''ld.lld execute fail: '' @ endl @ ''ld.lld: error: cannot link'' @ endl @ ''1'' @ endl"
    by (simp add: example_llvm_def example_world_def to_string_def digit_char_def)
  from d v l g c show ?thesis by simp
qed


lemma deref_init_llvm: "deref (init_llvm w) a = deref w a"
  by (simp add: init_llvm_def deref_def)

lemma deref_destroy: "a \<noteq> b \<Longrightarrow> deref (destroy b w) a = deref w a"
  by (simp add: destroy_def deref_def)

text \<open>
  Claim C9.  In \<open>llir_to_amdgcn_and_hsaco\<close> the module is cloned before either
  emission; the clone is another object with the same content.  The assembly
  branch runs on the original and leaves every other module, the clone among
  them, as it was; the object branch runs on the clone, which still has the
  content the original had at the start, and leaves the original as the
  assembly branch left it.  The pair returned holds the assembly text of the
  first and the path of the second.
\<close>

theorem emission_branches_on_independent_copies:
  assumes "deref w module = Some m0" and "verify_ok env m0"
    and "lookupTarget env (registered (init_llvm w)) ''amdgcn-amd-amdhsa'' = Inr tgt"
  shows "\<exists>module_obj w2 amdgcn w3 hsaco_path w4.
           CloneModule (init_llvm w) module = Inr (module_obj, w2) \<and>
           module_obj \<noteq> module \<and>
           deref w2 module = Some m0 \<and> deref w2 module_obj = Some m0 \<and>
           generate_amdgcn_assembly env w2 module ''amdgcn-amd-amdhsa'' cc ''+sramecc,-xnack'' =
             Inr (amdgcn, w3) \<and>
           (\<forall>a. a \<noteq> module \<longrightarrow> deref w3 a = deref w2 a) \<and>
           deref w3 module_obj = Some m0 \<and>
           generate_hsaco env w3 module_obj ''amdgcn-amd-amdhsa'' cc ''+sramecc,-xnack'' =
             Inr (hsaco_path, w4) \<and>
           (\<forall>a. a \<noteq> module_obj \<longrightarrow> deref w4 a = deref w3 a) \<and>
           deref w4 module = deref w3 module \<and>
           hsaco_path = tmpnam env (tmpnam_calls w) @ ''_'' @ moduleIdentifier m0 @ ''.hsaco'' \<and>
           llir_to_amdgcn_and_hsaco env w module cc =
             Inr ((amdgcn, hsaco_path), destroy module_obj w4) \<and>
           deref (destroy module_obj w4) module = deref w3 module"
proof -
  let ?w1 = "init_llvm w"
  let ?obj = "length (heap ?w1)"
  let ?w2 = "?w1\<lparr>heap := heap ?w1 @ [Some m0]\<rparr>"
  have d1: "deref ?w1 module = Some m0"
    using assms(1) by (simp add: deref_init_llvm)
  note c = CloneModule_Inr [OF d1]
  have r2: "registered ?w2 = registered ?w1" "tmpnam_calls ?w2 = tmpnam_calls w"
    by (simp_all add: init_llvm_def)
  have l2: "lookupTarget env (registered ?w2) ''amdgcn-amd-amdhsa'' = Inr tgt"
    using assms(3) r2 by simp
  from generate_amdgcn_assembly_total [OF c(3) assms(2) l2] obtain amdgcn w3 where
    a: "generate_amdgcn_assembly env ?w2 module ''amdgcn-amd-amdhsa'' cc ''+sramecc,-xnack'' =
          Inr (amdgcn, w3)"
    by blast
  note fa = generate_amdgcn_assembly_Inr [OF a]
  have f3: "\<forall>a. a \<noteq> module \<longrightarrow> deref w3 a = deref ?w2 a" using fa by blast
  have d3: "deref w3 ?obj = Some m0" using f3 c(2,4) by simp
  have l3: "lookupTarget env (registered w3) ''amdgcn-amd-amdhsa'' = Inr tgt"
    using fa l2 by simp
  from generate_hsaco_total [OF d3 assms(2) l3] obtain hsaco_path w4 where
    h: "generate_hsaco env w3 ?obj ''amdgcn-amd-amdhsa'' cc ''+sramecc,-xnack'' =
          Inr (hsaco_path, w4)"
    by blast
  note fh = generate_hsaco_Inr [OF h]
  have f4: "\<forall>a. a \<noteq> ?obj \<longrightarrow> deref w4 a = deref w3 a" using fh by blast
  have d4: "deref w4 module = deref w3 module" using f4 c(2) by simp
  have hp: "hsaco_path = tmpnam env (tmpnam_calls w) @ ''_'' @ moduleIdentifier m0 @ ''.hsaco''"
    using fh d3 fa r2 by auto
  have r: "llir_to_amdgcn_and_hsaco env w module cc =
             Inr ((amdgcn, hsaco_path), destroy ?obj w4)"
    using c(1) a h by (simp add: llir_to_amdgcn_and_hsaco_def Let_def)
  have dd: "deref (destroy ?obj w4) module = deref w3 module"
    using d4 c(2) by (simp add: deref_destroy)
  from c(1) c(2) c(3) c(4) a f3 d3 h f4 d4 hp r dd show ?thesis by blast
qed

theorem emission_branches_on_independent_copies_witness:
  "deref example_world 0 = Some example_module \<and>
   verify_ok (example_llvm 0) example_module \<and>
   lookupTarget (example_llvm 0) (registered (init_llvm example_world)) ''amdgcn-amd-amdhsa'' =
     Inr ''amdgcn'' \<and>
   map_sum id fst (llir_to_amdgcn_and_hsaco (example_llvm 0) example_world 0 ''gfx90a'') =
     Inr (''asm of ir'', ''/tmp/file0_kernel.hsaco'') \<and>
   map_sum id (\<lambda>r. map_of (files (snd r)) ''/tmp/file0_kernel.o'')
     (llir_to_amdgcn_and_hsaco (example_llvm 0) example_world 0 ''gfx90a'') =
     Inr (Some ''obj of ir'') \<and>
   map_sum id (\<lambda>r. map (map_option code) (heap (snd r)))
     (llir_to_amdgcn_and_hsaco (example_llvm 0) example_world 0 ''gfx90a'') =
     Inr [Some ''lowered ir'', None]"
proof -
  have d: "deref example_world 0 = Some example_module"
    by (simp add: example_world_def deref_def)
  have v: "verify_ok (example_llvm 0) example_module" by (simp add: example_llvm_def)
  have l: "lookupTarget (example_llvm 0) (registered (init_llvm example_world))
      ''amdgcn-amd-amdhsa'' = Inr ''amdgcn''"
    by (simp add: example_llvm_def example_init)
  from emission_branches_on_independent_copies [OF d v l, of "''gfx90a''"]
  obtain amdgcn w' where
    r: "llir_to_amdgcn_and_hsaco (example_llvm 0) example_world 0 ''gfx90a'' =
          Inr ((amdgcn, tmpnam (example_llvm 0) (tmpnam_calls example_world) @ ''_'' @
                 moduleIdentifier example_module @ ''.hsaco''), w')"
    by blast
  have e: "llir_to_amdgcn_and_hsaco (example_llvm 0) example_world 0 ''gfx90a'' =
     Inr ((''asm of ir'', ''/tmp/file0_kernel.hsaco''),
       \<lparr>heap = [Some (example_module\<lparr>targetTriple := ''amdgcn-amd-amdhsa'',
                  dataLayout := ''e-p:64:64'',
                  functionList := [\<lparr>fn_name = ''add'', fn_attrs = [AlwaysInline]\<rparr>],
                  code := ''lowered ir''\<rparr>), None],
        registered = [''AMDGPUTarget'', ''AMDGPUTargetInfo'', ''AMDGPUTargetMC'',
                      ''AMDGPUAsmParser'', ''AMDGPUAsmPrinter''],
        cout = [],
        files = [(''/tmp/file0_kernel.hsaco'', ''linked''),
                 (''/tmp/file0_kernel.o'', ''obj of ir''), (''/tmp/file0_kernel.o'', [])],
        tmpnam_calls = 1\<rparr>)"
    by (simp add: llir_to_amdgcn_and_hsaco_def CloneModule_def generate_amdgcn_assembly_def
        generate_hsaco_def initialize_module_def example_llvm_def
        example_module_def Let_def deref_def store_def link_hsaco_def to_string_def
        digit_char_def init_llvm_def example_world_def destroy_def createTargetMachine_def
        addFnAttr_def)
  from r e have "amdgcn = ''asm of ir''" by simp
  with r have f1: "map_sum id fst (llir_to_amdgcn_and_hsaco (example_llvm 0) example_world 0 ''gfx90a'') =
     Inr (''asm of ir'', ''/tmp/file0_kernel.hsaco'')"
    by (simp add: example_llvm_def example_world_def example_module_def to_string_def
        digit_char_def)
  have f2: "map_sum id (\<lambda>r. map_of (files (snd r)) ''/tmp/file0_kernel.o'')
     (llir_to_amdgcn_and_hsaco (example_llvm 0) example_world 0 ''gfx90a'') =
     Inr (Some ''obj of ir'')"
    by (simp add: e)
  have f3: "map_sum id (\<lambda>r. map (map_option code) (heap (snd r)))
     (llir_to_amdgcn_and_hsaco (example_llvm 0) example_world 0 ''gfx90a'') =
     Inr [Some ''lowered ir'', None]"
    by (simp add: e)
  from d v l f1 f2 f3 show ?thesis by simp
qed








end
